theory Spec2Isabelle
  imports Complex_Main "HOL-Library.Multiset" "HOL-Library.Log_Nat"
begin

section \<open>Shape analysis of \<open>public/js/map/drawing.js\<close>\<close>

text \<open>
  The development embeds \<open>performAnalysis\<close> (drawing.js, lines 229-395): the pass over
  the population areas, the pass over the bunkers and the coverage percentage.

  Conventions of the embedding:
  \<^item> A field or array element that holds a number holds a finite one, a \<open>real\<close>, or one of
    the two values that behave as "not a number" under every operation the code
    applies to it (\<open>!v\<close>, \<open>v > k\<close>, \<open>isNaN(v)\<close>): \<open>NaN\<close> and \<open>Undefined\<close> (a missing field or
    array element).
  \<^item> The arithmetic of the code (\<open>+=\<close> on the two sums, \<open>/\<close> and \<open>*\<close> of the coverage) is the
    arithmetic of IEEE 754 doubles: the exact result rounded to the nearest double, ties
    to even, with the infinities and NaN as results.
  \<^item> A thrown exception is the \<open>Inl\<close> of a sum; \<open>try { ... } catch\<close> is a case
    distinction on it.
  \<^item> A row of a dataset is an object or \<open>null\<close>/\<open>undefined\<close> (\<open>None\<close>).
  \<^item> \<open>convertUTMToWGS84\<close> is imported from \<open>./config.js\<close>; it is a parameter \<open>conv\<close>
    of every function that calls it. It either throws or returns the array
    \<open>[lng, lat]\<close>.
  \<^item> Leaflet's \<open>LatLng.distanceTo\<close> is a parameter \<open>distanceTo\<close>. Leaflet's \<open>LatLng\<close>
    constructor, \<open>LatLngBounds.extend\<close>, \<open>intersects\<close> and \<open>contains\<close> are written out.
  \<^item> The datasets are arrays: \<open>initializeDrawing\<close> calls \<open>performAnalysis\<close> only when
    both are present.
\<close>

subsection \<open>JavaScript values\<close>

datatype js_error = TypeError | InvalidLatLng | ConversionError

datatype jsnum = Num real | NaN | Undefined

text \<open>\<open>!v\<close> is false exactly for the truthy values: the numbers other than 0.\<close>

fun truthy :: "jsnum \<Rightarrow> bool" where
  "truthy (Num r) = (r \<noteq> 0)"
| "truthy NaN = False"
| "truthy Undefined = False"

text \<open>\<open>v > k\<close> for a number literal \<open>k\<close>: \<open>NaN\<close> and \<open>undefined\<close> compare false.\<close>

fun gt :: "jsnum \<Rightarrow> real \<Rightarrow> bool" where
  "gt (Num r) k = (r > k)"
| "gt NaN k = False"
| "gt Undefined k = False"

subsection \<open>Double arithmetic\<close>

text \<open>
  The value of a running sum or of the coverage: a finite double (the real it stands
  for), an infinity or NaN. The two zeros are one value: they compare equal, and the
  code never divides by a zero (line 387).
\<close>

datatype double = Finite real | Infinity | NegInfinity | NotANumber

text \<open>\<open>pow2 k\<close> is \<open>2\<close> to the power \<open>k\<close>, for an integer \<open>k\<close>.\<close>

definition pow2 :: "int \<Rightarrow> real" where
  "pow2 k = (if 0 \<le> k then 2 ^ nat k else inverse (2 ^ nat (- k)))"

text \<open>
  The binary exponent of a real other than 0: the \<open>e\<close> with
  \<open>pow2 e \<le> \<bar>x\<bar> < pow2 (e + 1)\<close>, from the bit length of the integer part of \<open>\<bar>x\<bar>\<close>,
  or of \<open>1 / \<bar>x\<bar>\<close> below 1.
\<close>

definition expo :: "real \<Rightarrow> int" where
  "expo x =
     (if 1 \<le> \<bar>x\<bar> then bitlen \<lfloor>\<bar>x\<bar>\<rfloor> - 1
      else - bitlen (\<lceil>1 / \<bar>x\<bar>\<rceil> - 1))"

text \<open>The nearest integer, the even one of two that are equally near.\<close>

definition round_even :: "real \<Rightarrow> int" where
  "round_even y =
     (let f = \<lfloor>y\<rfloor>; r = y - of_int f
      in if r < 1 / 2 then f else if 1 / 2 < r then f + 1 else if even f then f else f + 1)"

text \<open>
  Rounding of an exact result to a double (binary64, round to nearest, ties to even):
  53 significant bits, so the spacing of the doubles around \<open>x\<close> is
  \<open>pow2 (expo x - 52)\<close>, and \<open>pow2 (- 1074)\<close> in the subnormal range; a result of
  magnitude \<open>2 ^ 1024\<close> is an infinity.
\<close>

definition round64 :: "real \<Rightarrow> double" where
  "round64 x =
     (if x = 0 then Finite 0
      else (let q = pow2 (max (expo x) (- 1022) - 52);
                r = q * of_int (round_even (x / q))
            in if 2 ^ 1024 \<le> r then Infinity
               else if r \<le> - (2 ^ 1024) then NegInfinity
               else Finite r))"

text \<open>\<open>a + b\<close>.\<close>

fun dadd :: "double \<Rightarrow> double \<Rightarrow> double" where
  "dadd (Finite x) (Finite y) = round64 (x + y)"
| "dadd NotANumber b = NotANumber"
| "dadd a NotANumber = NotANumber"
| "dadd Infinity NegInfinity = NotANumber"
| "dadd NegInfinity Infinity = NotANumber"
| "dadd Infinity b = Infinity"
| "dadd NegInfinity b = NegInfinity"
| "dadd (Finite x) Infinity = Infinity"
| "dadd (Finite x) NegInfinity = NegInfinity"

text \<open>\<open>a / b\<close>; a zero divisor is the positive zero.\<close>

fun ddiv :: "double \<Rightarrow> double \<Rightarrow> double" where
  "ddiv (Finite x) (Finite y) =
     (if y = 0 then (if x = 0 then NotANumber else if 0 < x then Infinity else NegInfinity)
      else round64 (x / y))"
| "ddiv NotANumber b = NotANumber"
| "ddiv a NotANumber = NotANumber"
| "ddiv (Finite x) Infinity = Finite 0"
| "ddiv (Finite x) NegInfinity = Finite 0"
| "ddiv Infinity (Finite y) = (if 0 \<le> y then Infinity else NegInfinity)"
| "ddiv NegInfinity (Finite y) = (if 0 \<le> y then NegInfinity else Infinity)"
| "ddiv Infinity b = NotANumber"
| "ddiv NegInfinity b = NotANumber"

text \<open>\<open>a * b\<close>.\<close>

fun dmul :: "double \<Rightarrow> double \<Rightarrow> double" where
  "dmul (Finite x) (Finite y) = round64 (x * y)"
| "dmul NotANumber b = NotANumber"
| "dmul a NotANumber = NotANumber"
| "dmul (Finite x) Infinity =
     (if x = 0 then NotANumber else if 0 < x then Infinity else NegInfinity)"
| "dmul (Finite x) NegInfinity =
     (if x = 0 then NotANumber else if 0 < x then NegInfinity else Infinity)"
| "dmul Infinity (Finite y) =
     (if y = 0 then NotANumber else if 0 < y then Infinity else NegInfinity)"
| "dmul NegInfinity (Finite y) =
     (if y = 0 then NotANumber else if 0 < y then NegInfinity else Infinity)"
| "dmul Infinity Infinity = Infinity"
| "dmul Infinity NegInfinity = NegInfinity"
| "dmul NegInfinity Infinity = NegInfinity"
| "dmul NegInfinity NegInfinity = Infinity"

text \<open>\<open>a > k\<close> for a number literal \<open>k\<close>.\<close>

fun dgt :: "double \<Rightarrow> real \<Rightarrow> bool" where
  "dgt (Finite x) k = (x > k)"
| "dgt Infinity k = True"
| "dgt NegInfinity k = False"
| "dgt NotANumber k = False"

subsection \<open>Leaflet: points and bounds\<close>

record latlng =
  lat :: real
  lng :: real

record latLngBounds =
  south :: real
  west :: real
  north :: real
  east :: real

text \<open>
  \<open>new L.LatLng(lat, lng)\<close> throws \<open>Invalid LatLng object\<close> when \<open>isNaN\<close> holds of a
  component. With an \<open>undefined\<close> component the failure comes one step later (Leaflet
  hands back no point and the next method call on it is a \<open>TypeError\<close>), inside the same
  \<open>try\<close> block, so both are an exception of this step.
\<close>

fun L_latLng :: "jsnum \<Rightarrow> jsnum \<Rightarrow> js_error + latlng" where
  "L_latLng (Num a) (Num b) = Inr \<lparr>lat = a, lng = b\<rparr>"
| "L_latLng NaN b = Inl InvalidLatLng"
| "L_latLng Undefined b = Inl TypeError"
| "L_latLng (Num a) NaN = Inl InvalidLatLng"
| "L_latLng (Num a) Undefined = Inl TypeError"

text \<open>\<open>L.polygon(convertedCoords)\<close>: every \<open>[lat, lng]\<close> array becomes a \<open>LatLng\<close>.\<close>

fun L_polygon :: "(jsnum \<times> jsnum) list \<Rightarrow> js_error + latlng list" where
  "L_polygon [] = Inr []"
| "L_polygon (c # cs) =
     (case L_latLng (fst c) (snd c) of
        Inl e \<Rightarrow> Inl e
      | Inr p \<Rightarrow> (case L_polygon cs of Inl e \<Rightarrow> Inl e | Inr ps \<Rightarrow> Inr (p # ps)))"

text \<open>\<open>LatLngBounds.extend\<close> with a point; \<open>None\<close> is the bounds object before its first point.\<close>

fun bounds_extend :: "latLngBounds option \<Rightarrow> latlng \<Rightarrow> latLngBounds option" where
  "bounds_extend None p = Some \<lparr>south = lat p, west = lng p, north = lat p, east = lng p\<rparr>"
| "bounds_extend (Some b) p =
     Some \<lparr>south = min (lat p) (south b), west = min (lng p) (west b),
           north = max (lat p) (north b), east = max (lng p) (east b)\<rparr>"

definition getBounds :: "latlng list \<Rightarrow> latLngBounds option" where
  "getBounds ps = foldl bounds_extend None ps"

text \<open>\<open>this.intersects(bounds)\<close>: the two boxes share at least one point.\<close>

definition intersects :: "latLngBounds \<Rightarrow> latLngBounds \<Rightarrow> bool" where
  "intersects this bounds \<longleftrightarrow>
     (north bounds \<ge> south this \<and> south bounds \<le> north this) \<and>
     (east bounds \<ge> west this \<and> west bounds \<le> east this)"

text \<open>\<open>this.contains(latlng)\<close> for a point.\<close>

definition contains :: "latLngBounds \<Rightarrow> latlng \<Rightarrow> bool" where
  "contains this p \<longleftrightarrow>
     lat p \<ge> south this \<and> lat p \<le> north this \<and> lng p \<ge> west this \<and> lng p \<le> east this"

subsection \<open>The inputs\<close>

text \<open>
  The drawn layer, as \<open>performAnalysis\<close> reads it (lines 235-246): a circle gives
  \<open>getLatLng()\<close>, \<open>getRadius()\<close> and \<open>getBounds()\<close>; a rectangle or a polygon gives
  \<open>getBounds()\<close> only.
\<close>

datatype drawnShape =
  Circle latlng real latLngBounds
| Rectangle latLngBounds
| Polygon latLngBounds

text \<open>A GeoJSON geometry: \<open>coordinates\<close> may be missing.\<close>

record 'c geometry =
  coordinates :: "'c option"

text \<open>A coordinate array \<open>[x, y]\<close>; a ring is an array of them.\<close>

type_synonym coord = "jsnum \<times> jsnum"

text \<open>
  A population row that is an object: \<open>geom.coordinates\<close> is an array of rings. In a
  dataset a row is an \<open>area option\<close>: \<open>None\<close> is a row that is \<open>null\<close> or \<open>undefined\<close>.
\<close>

record area =
  geom :: "coord list list geometry option"
  poptot :: jsnum

text \<open>A bunker row that is an object: \<open>geom.coordinates\<close> is one coordinate array.\<close>

record bunker =
  bgeom :: "coord geometry option"
  plasser :: jsnum

subsection \<open>The local variables of \<open>performAnalysis\<close>\<close>

record vars =
  totalPopulation :: double
  areasIntersected :: nat
  areasProcessed :: nat
  areasWithErrors :: nat
  totalShelterCapacity :: double
  bunkersInside :: nat

record analysisResult = vars +
  coveragePercentage :: double

definition init_vars :: vars where
  "init_vars = \<lparr>totalPopulation = Finite 0, areasIntersected = 0, areasProcessed = 0,
                 areasWithErrors = 0, totalShelterCapacity = Finite 0, bunkersInside = 0\<rparr>"

text \<open>
  \<open>Array.prototype.forEach\<close> with a callback that updates the local variables: an
  exception leaving the callback ends the loop and leaves \<open>forEach\<close>.
\<close>

fun forEach :: "('a \<Rightarrow> 's \<Rightarrow> js_error + 's) \<Rightarrow> 'a list \<Rightarrow> 's \<Rightarrow> js_error + 's" where
  "forEach f [] st = Inr st"
| "forEach f (x # xs) st = (case f x st of Inl e \<Rightarrow> Inl e | Inr st' \<Rightarrow> forEach f xs st')"

subsection \<open>The pass over the population areas (lines 259-327)\<close>

text \<open>The body of the inner \<open>try\<close> (lines 277-283).\<close>

definition normalizeCoord ::
  "(jsnum \<Rightarrow> jsnum \<Rightarrow> js_error + coord) \<Rightarrow> coord \<Rightarrow> js_error + coord" where
  "normalizeCoord conv coord =
     (if gt (fst coord) 180 \<or> gt (snd coord) 90 then
        (case conv (fst coord) (snd coord) of
           Inl e \<Rightarrow> Inl e
         | Inr wgs84 \<Rightarrow> Inr (snd wgs84, fst wgs84))
      else Inr (snd coord, fst coord))"

text \<open>The callback of \<open>coords.map\<close> (lines 275-288): the inner \<open>catch\<close> returns \<open>null\<close>.\<close>

definition convertCoord ::
  "(jsnum \<Rightarrow> jsnum \<Rightarrow> js_error + coord) \<Rightarrow> coord \<Rightarrow> coord option" where
  "convertCoord conv coord =
     (case normalizeCoord conv coord of Inl err \<Rightarrow> None | Inr c \<Rightarrow> Some c)"

text \<open>\<open>coords.map(...).filter(coord => coord !== null)\<close>.\<close>

definition convertedCoords ::
  "(jsnum \<Rightarrow> jsnum \<Rightarrow> js_error + coord) \<Rightarrow> coord list \<Rightarrow> coord list" where
  "convertedCoords conv coords =
     map the (filter (\<lambda>c. c \<noteq> None) (map (convertCoord conv) coords))"

text \<open>The loop of lines 305-311: it stops at the first vertex inside the circle.\<close>

fun vertexInCircle ::
  "(latlng \<Rightarrow> latlng \<Rightarrow> real) \<Rightarrow> latlng \<Rightarrow> real \<Rightarrow> latlng list \<Rightarrow> bool" where
  "vertexInCircle distanceTo shapeCenter shapeRadius [] = False"
| "vertexInCircle distanceTo shapeCenter shapeRadius (point # ps) =
     (if distanceTo point shapeCenter \<le> shapeRadius then True
      else vertexInCircle distanceTo shapeCenter shapeRadius ps)"

text \<open>
  Lines 294-316, for the converted ring: the polygon, its bounds and \<open>isIntersecting\<close>.
  A polygon without a point has no bounds, and \<open>intersects\<close> on it is a \<open>TypeError\<close>.
\<close>

definition isIntersecting ::
  "(latlng \<Rightarrow> latlng \<Rightarrow> real) \<Rightarrow> drawnShape \<Rightarrow> coord list \<Rightarrow> js_error + bool" where
  "isIntersecting distanceTo shape cs =
     (case L_polygon cs of
        Inl e \<Rightarrow> Inl e
      | Inr polygon \<Rightarrow>
          (case getBounds polygon of
             None \<Rightarrow> Inl TypeError
           | Some polygonBounds \<Rightarrow>
               (case shape of
                  Circle shapeCenter shapeRadius shapeBounds \<Rightarrow>
                    Inr (if intersects polygonBounds shapeBounds
                         then vertexInCircle distanceTo shapeCenter shapeRadius polygon
                         else False)
                | Rectangle shapeBounds \<Rightarrow> Inr (intersects polygonBounds shapeBounds)
                | Polygon shapeBounds \<Rightarrow> Inr (intersects polygonBounds shapeBounds))))"

text \<open>
  The body of the outer \<open>try\<close> (lines 267-322) up to \<open>isIntersecting\<close>: \<open>None\<close> is the
  \<open>return\<close> of line 291. \<open>coordinates[0] || coordinates\<close> is the first ring; of an
  empty \<open>coordinates\<close> array it is the empty array itself. Both are arrays, so the
  \<open>return\<close> of line 271 is not taken.
\<close>

definition area_try ::
  "(jsnum \<Rightarrow> jsnum \<Rightarrow> js_error + coord) \<Rightarrow> (latlng \<Rightarrow> latlng \<Rightarrow> real) \<Rightarrow> drawnShape \<Rightarrow>
   coord list list \<Rightarrow> js_error + bool option" where
  "area_try conv distanceTo shape geom_coordinates =
     (let coords = (case geom_coordinates of [] \<Rightarrow> [] | ring # _ \<Rightarrow> ring);
          cs = convertedCoords conv coords
      in if length cs < 3 then Inr None
         else (case isIntersecting distanceTo shape cs of
                 Inl e \<Rightarrow> Inl e
               | Inr b \<Rightarrow> Inr (Some b)))"

text \<open>
  The test of line 262, \<open>!area.geom || !area.geom.coordinates || !area.poptot\<close>: when
  it is false, the coordinates array and the (non-zero) population.
\<close>

definition area_data :: "area \<Rightarrow> (coord list list \<times> real) option" where
  "area_data a =
     (case geom a of
        None \<Rightarrow> None
      | Some g \<Rightarrow>
          (case coordinates g of
             None \<Rightarrow> None
           | Some cs \<Rightarrow>
               (case poptot a of
                  Num p \<Rightarrow> if truthy (Num p) then Some (cs, p) else None
                | NaN \<Rightarrow> None
                | Undefined \<Rightarrow> None)))"

text \<open>
  The callback of \<open>populationData.forEach\<close>. The test of line 262 stands before the
  \<open>try\<close>: on a row that is \<open>null\<close> or \<open>undefined\<close>, reading \<open>area.geom\<close> is a \<open>TypeError\<close>
  that leaves the callback.
\<close>

definition population_callback ::
  "(jsnum \<Rightarrow> jsnum \<Rightarrow> js_error + coord) \<Rightarrow> (latlng \<Rightarrow> latlng \<Rightarrow> real) \<Rightarrow> drawnShape \<Rightarrow>
   area option \<Rightarrow> vars \<Rightarrow> js_error + vars" where
  "population_callback conv distanceTo shape row st0 =
     (let st = st0\<lparr>areasProcessed := areasProcessed st0 + 1\<rparr>
      in case row of
           None \<Rightarrow> Inl TypeError
         | Some a \<Rightarrow>
             (case area_data a of
                None \<Rightarrow> Inr st
              | Some (cs, p) \<Rightarrow>
                  (case area_try conv distanceTo shape cs of
                     Inr None \<Rightarrow> Inr st
                   | Inr (Some b) \<Rightarrow>
                       (if b then
                          Inr (st\<lparr>areasIntersected := areasIntersected st + 1,
                                  totalPopulation := dadd (totalPopulation st) (Finite p)\<rparr>)
                        else Inr st)
                   | Inl error \<Rightarrow> Inr (st\<lparr>areasWithErrors := areasWithErrors st + 1\<rparr>))))"

subsection \<open>The pass over the bunkers (lines 343-380)\<close>

text \<open>The test of line 344, as \<open>area_data\<close>.\<close>

definition bunker_data :: "bunker \<Rightarrow> (coord \<times> real) option" where
  "bunker_data b =
     (case bgeom b of
        None \<Rightarrow> None
      | Some g \<Rightarrow>
          (case coordinates g of
             None \<Rightarrow> None
           | Some c \<Rightarrow>
               (case plasser b of
                  Num p \<Rightarrow> if truthy (Num p) then Some (c, p) else None
                | NaN \<Rightarrow> None
                | Undefined \<Rightarrow> None)))"

text \<open>Lines 349-356: \<open>bunkerLatLng\<close>.\<close>

definition bunkerLatLng ::
  "(jsnum \<Rightarrow> jsnum \<Rightarrow> js_error + coord) \<Rightarrow> coord \<Rightarrow> js_error + latlng" where
  "bunkerLatLng conv c =
     (let utmEasting = fst c; utmNorthing = snd c
      in case conv utmEasting utmNorthing of
           Inl e \<Rightarrow> Inl e
         | Inr wgs84Coords \<Rightarrow> L_latLng (snd wgs84Coords) (fst wgs84Coords))"

text \<open>Lines 359-370: \<open>isInside\<close>.\<close>

fun isInside :: "(latlng \<Rightarrow> latlng \<Rightarrow> real) \<Rightarrow> drawnShape \<Rightarrow> latlng \<Rightarrow> bool" where
  "isInside distanceTo (Circle shapeCenter shapeRadius shapeBounds) p =
     (distanceTo p shapeCenter \<le> shapeRadius)"
| "isInside distanceTo (Rectangle shapeBounds) p = contains shapeBounds p"
| "isInside distanceTo (Polygon shapeBounds) p = contains shapeBounds p"

text \<open>The body of the \<open>try\<close> (lines 349-370).\<close>

definition bunker_try ::
  "(jsnum \<Rightarrow> jsnum \<Rightarrow> js_error + coord) \<Rightarrow> (latlng \<Rightarrow> latlng \<Rightarrow> real) \<Rightarrow> drawnShape \<Rightarrow>
   coord \<Rightarrow> js_error + bool" where
  "bunker_try conv distanceTo shape c =
     (case bunkerLatLng conv c of
        Inl e \<Rightarrow> Inl e
      | Inr p \<Rightarrow> Inr (isInside distanceTo shape p))"

text \<open>
  The callback of \<open>bunkerData.forEach\<close>. The test of line 344 stands before the \<open>try\<close>,
  as the one of line 262.
\<close>

definition bunker_callback ::
  "(jsnum \<Rightarrow> jsnum \<Rightarrow> js_error + coord) \<Rightarrow> (latlng \<Rightarrow> latlng \<Rightarrow> real) \<Rightarrow> drawnShape \<Rightarrow>
   bunker option \<Rightarrow> vars \<Rightarrow> js_error + vars" where
  "bunker_callback conv distanceTo shape row st =
     (case row of
        None \<Rightarrow> Inl TypeError
      | Some b \<Rightarrow>
          (case bunker_data b of
             None \<Rightarrow> Inr st
           | Some (c, p) \<Rightarrow>
               (case bunker_try conv distanceTo shape c of
                  Inr inside \<Rightarrow>
                    (if inside then
                       Inr (st\<lparr>bunkersInside := bunkersInside st + 1,
                               totalShelterCapacity :=
                                 dadd (totalShelterCapacity st) (Finite p)\<rparr>)
                     else Inr st)
                | Inl error \<Rightarrow> Inr st)))"

subsection \<open>The coverage and the whole analysis\<close>

text \<open>Lines 387-389.\<close>

definition coverage :: "double \<Rightarrow> double \<Rightarrow> double" where
  "coverage totalShelterCapacity' totalPopulation' =
     (if dgt totalPopulation' 0
      then dmul (ddiv totalShelterCapacity' totalPopulation') (Finite 100)
      else Finite 0)"

text \<open>
  \<open>performAnalysis\<close>, up to the values it hands to \<open>updateAnalysisResults\<close> and the
  counters it logs. Its fourth parameter, \<open>shelterData\<close>, is never read.
\<close>

definition performAnalysis ::
  "(jsnum \<Rightarrow> jsnum \<Rightarrow> js_error + coord) \<Rightarrow> (latlng \<Rightarrow> latlng \<Rightarrow> real) \<Rightarrow> drawnShape \<Rightarrow>
   area option list \<Rightarrow> bunker option list \<Rightarrow> js_error + analysisResult" where
  "performAnalysis conv distanceTo drawnShape populationData bunkerData =
     (case (if populationData = [] then Inr init_vars
            else forEach (population_callback conv distanceTo drawnShape) populationData init_vars) of
        Inl e \<Rightarrow> Inl e
      | Inr st1 \<Rightarrow>
          (case (if bunkerData = [] then Inr st1
                 else forEach (bunker_callback conv distanceTo drawnShape) bunkerData st1) of
             Inl e \<Rightarrow> Inl e
           | Inr st2 \<Rightarrow>
               Inr \<lparr>totalPopulation = totalPopulation st2,
                    areasIntersected = areasIntersected st2,
                    areasProcessed = areasProcessed st2,
                    areasWithErrors = areasWithErrors st2,
                    totalShelterCapacity = totalShelterCapacity st2,
                    bunkersInside = bunkersInside st2,
                    coveragePercentage =
                      coverage (totalShelterCapacity st2) (totalPopulation st2)\<rparr>))"

subsection \<open>What a row adds\<close>

text \<open>
  For stating what a pass computes over a whole dataset: the number a row holds as
  its population or capacity (0 when it holds none), whether a population row is
  counted as intersecting, whether its processing throws, and whether a bunker row is
  counted as inside.
\<close>

definition population_of :: "area option \<Rightarrow> real" where
  "population_of row =
     (case row of
        None \<Rightarrow> 0
      | Some a \<Rightarrow> (case poptot a of Num p \<Rightarrow> p | NaN \<Rightarrow> 0 | Undefined \<Rightarrow> 0))"

definition capacity_of :: "bunker option \<Rightarrow> real" where
  "capacity_of row =
     (case row of
        None \<Rightarrow> 0
      | Some b \<Rightarrow> (case plasser b of Num p \<Rightarrow> p | NaN \<Rightarrow> 0 | Undefined \<Rightarrow> 0))"

definition area_counted ::
  "(jsnum \<Rightarrow> jsnum \<Rightarrow> js_error + coord) \<Rightarrow> (latlng \<Rightarrow> latlng \<Rightarrow> real) \<Rightarrow> drawnShape \<Rightarrow>
   area option \<Rightarrow> bool" where
  "area_counted conv distanceTo shape row =
     (case row of
        None \<Rightarrow> False
      | Some a \<Rightarrow>
          (case area_data a of
             None \<Rightarrow> False
           | Some (cs, p) \<Rightarrow> area_try conv distanceTo shape cs = Inr (Some True)))"

definition area_failed ::
  "(jsnum \<Rightarrow> jsnum \<Rightarrow> js_error + coord) \<Rightarrow> (latlng \<Rightarrow> latlng \<Rightarrow> real) \<Rightarrow> drawnShape \<Rightarrow>
   area option \<Rightarrow> bool" where
  "area_failed conv distanceTo shape row =
     (case row of
        None \<Rightarrow> False
      | Some a \<Rightarrow>
          (case area_data a of
             None \<Rightarrow> False
           | Some (cs, p) \<Rightarrow>
               (case area_try conv distanceTo shape cs of Inl e \<Rightarrow> True | Inr b \<Rightarrow> False)))"

definition bunker_counted ::
  "(jsnum \<Rightarrow> jsnum \<Rightarrow> js_error + coord) \<Rightarrow> (latlng \<Rightarrow> latlng \<Rightarrow> real) \<Rightarrow> drawnShape \<Rightarrow>
   bunker option \<Rightarrow> bool" where
  "bunker_counted conv distanceTo shape row =
     (case row of
        None \<Rightarrow> False
      | Some b \<Rightarrow>
          (case bunker_data b of
             None \<Rightarrow> False
           | Some (c, p) \<Rightarrow> bunker_try conv distanceTo shape c = Inr True))"

text \<open>The sum a pass leaves: the values added one after the other, each sum rounded.\<close>

definition running_sum :: "double \<Rightarrow> real list \<Rightarrow> double" where
  "running_sum start vs = fold (\<lambda>v total. dadd total (Finite v)) vs start"

subsection \<open>Concrete inputs\<close>

text \<open>
  Stand-ins for the two parameters, for evaluating the functions on concrete rows: a
  conversion that scales a pair of numbers down and throws on anything else, one that
  always throws, and the taxicab distance scaled to metres per degree.
\<close>

definition example_conv :: "jsnum \<Rightarrow> jsnum \<Rightarrow> js_error + coord" where
  "example_conv x y =
     (case x of
        Num a \<Rightarrow> (case y of
                    Num b \<Rightarrow> Inr (Num (a / 100000), Num (b / 100000))
                  | NaN \<Rightarrow> Inl ConversionError
                  | Undefined \<Rightarrow> Inl ConversionError)
      | NaN \<Rightarrow> Inl ConversionError
      | Undefined \<Rightarrow> Inl ConversionError)"

definition failing_conv :: "jsnum \<Rightarrow> jsnum \<Rightarrow> js_error + coord" where
  "failing_conv x y = Inl ConversionError"

definition example_distance :: "latlng \<Rightarrow> latlng \<Rightarrow> real" where
  "example_distance p q = 100000 * (\<bar>lat p - lat q\<bar> + \<bar>lng p - lng q\<bar>)"

definition example_box :: latLngBounds where
  "example_box = \<lparr>south = 0, west = 0, north = 10, east = 10\<rparr>"

definition example_circle :: drawnShape where
  "example_circle = Circle \<lparr>lat = 5, lng = 5\<rparr> 1000 \<lparr>south = 4, west = 4, north = 6, east = 6\<rparr>"

text \<open>
  Rows: a ring of three coordinates, the last one in projected form; population
  rows around it; a bunker at projected coordinates and one whose coordinates are
  within the geographic range.
\<close>

definition example_ring :: "coord list" where
  "example_ring = [(Num 1, Num 2), (Num 3, Num 4), (Num 200000, Num 300000)]"

definition example_area :: area where
  "example_area = \<lparr>geom = Some \<lparr>coordinates = Some [example_ring]\<rparr>, poptot = Num 10\<rparr>"

definition second_area :: area where
  "second_area =
     \<lparr>geom = Some \<lparr>coordinates = Some [[(Num 7, Num 7), (Num 8, Num 7), (Num 8, Num 8)]]\<rparr>,
      poptot = Num 45\<rparr>"

definition short_area :: area where
  "short_area =
     \<lparr>geom = Some \<lparr>coordinates = Some [[(Num 1, Num 2), (Num 3, Num 4)]]\<rparr>, poptot = Num 100\<rparr>"

definition broken_area :: area where
  "broken_area =
     \<lparr>geom = Some \<lparr>coordinates = Some [[(Num 1, Num 2), (Num 3, NaN), (Num 5, Num 6)]]\<rparr>,
      poptot = Num 100\<rparr>"

definition example_bunker :: bunker where
  "example_bunker = \<lparr>bgeom = Some \<lparr>coordinates = Some (Num 500000, Num 600000)\<rparr>, plasser = Num 40\<rparr>"

definition near_bunker :: bunker where
  "near_bunker = \<lparr>bgeom = Some \<lparr>coordinates = Some (Num 5, Num 6)\<rparr>, plasser = Num 15\<rparr>"

text \<open>
  Rings for the circle of centre (5, 5): a square around the circle with every corner
  far from the centre, a triangle with one corner next to the centre, and a triangle
  far to the north.
\<close>

definition surrounding_ring :: "coord list" where
  "surrounding_ring = [(Num 0, Num 0), (Num 10, Num 0), (Num 10, Num 10), (Num 0, Num 10)]"

definition touching_ring :: "coord list" where
  "touching_ring = [(Num 5, Num 5.001), (Num 8, Num 9), (Num 9, Num 8)]"

definition distant_ring :: "coord list" where
  "distant_ring = [(Num 5, Num 20), (Num 6, Num 21), (Num 5, Num 22)]"

text \<open>A bunker whose northing is not a number: its conversion throws.\<close>

definition broken_bunker :: bunker where
  "broken_bunker = \<lparr>bgeom = Some \<lparr>coordinates = Some (Num 500000, NaN)\<rparr>, plasser = Num 30\<rparr>"

text \<open>
  Population rows on the example ring: one with a negative population, one with the
  population \<open>2 ^ 53\<close> and one with the population 1.
\<close>

definition negative_area :: area where
  "negative_area = \<lparr>geom = Some \<lparr>coordinates = Some [example_ring]\<rparr>, poptot = Num (- 5)\<rparr>"

definition big_area :: area where
  "big_area =
     \<lparr>geom = Some \<lparr>coordinates = Some [example_ring]\<rparr>, poptot = Num 9007199254740992\<rparr>"

definition unit_area :: area where
  "unit_area = \<lparr>geom = Some \<lparr>coordinates = Some [example_ring]\<rparr>, poptot = Num 1\<rparr>"

section \<open>Properties\<close>

subsection \<open>Unfolding the analysis\<close>

lemmas analysis_defs =
  performAnalysis_def population_callback_def bunker_callback_def area_data_def bunker_data_def
  area_try_def bunker_try_def bunkerLatLng_def isIntersecting_def convertedCoords_def
  convertCoord_def normalizeCoord_def getBounds_def intersects_def contains_def coverage_def
  init_vars_def

lemmas example_defs =
  example_conv_def failing_conv_def example_distance_def example_box_def example_circle_def
  example_ring_def example_area_def second_area_def short_area_def broken_area_def
  example_bunker_def near_bunker_def surrounding_ring_def touching_ring_def distant_ring_def
  broken_bunker_def negative_area_def big_area_def unit_area_def

subsection \<open>Rounding to a double\<close>

lemma pow2_powr: "pow2 k = 2 powr (of_int k)"
  by (simp add: pow2_def powr_real_of_int)

lemma pow2_pos: "0 < pow2 k"
  by (simp add: pow2_powr)

lemma pow2_nat: "pow2 (int n) = 2 ^ n"
  by (simp add: pow2_def)

lemma pow2_neg_nat: "pow2 (- int n) = 1 / 2 ^ n"
proof (cases n)
  case 0
  then show ?thesis by (simp add: pow2_def)
next
  case (Suc m)
  have "pow2 (- int (Suc m)) = inverse (2 ^ nat (int (Suc m)))"
    unfolding pow2_def by simp
  also have "\<dots> = 1 / 2 ^ Suc m"
    by (simp only: nat_int inverse_eq_divide)
  finally show ?thesis using Suc by simp
qed

lemma real_less_pow2_succ:
  fixes n fl :: nat
  assumes "n < 2 ^ fl"
  shows "real n + 1 \<le> 2 ^ fl"
proof -
  from assms have "Suc n \<le> 2 ^ fl" by simp
  then have "real (Suc n) \<le> real (2 ^ fl)" by (simp only: of_nat_le_iff)
  then show ?thesis by simp
qed

lemma real_pow2_le:
  fixes n k :: nat
  assumes "2 ^ k \<le> n"
  shows "(2::real) ^ k \<le> real n"
proof -
  from assms have "real (2 ^ k) \<le> real n" by (simp only: of_nat_le_iff)
  then show ?thesis by simp
qed

lemma expo_eq:
  assumes "x \<noteq> 0"
  shows "expo x = \<lfloor>log 2 \<bar>x\<bar>\<rfloor>"
proof (cases "1 \<le> \<bar>x\<bar>")
  case True
  define n where "n = nat \<lfloor>\<bar>x\<bar>\<rfloor>"
  define fl where "fl = floorlog 2 n"
  have n1: "1 \<le> n" using True by (simp add: n_def le_nat_floor)
  have rn: "real n \<le> \<bar>x\<bar>" "\<bar>x\<bar> < real n + 1"
    unfolding n_def by linarith+
  from floorlog_bounds [of n 2] n1 have b: "2 ^ (fl - 1) \<le> n" "n < 2 ^ fl"
    by (simp_all add: fl_def)
  have fl1: "1 \<le> fl" using b(2) n1 by (cases fl) auto
  have e1: "int fl - 1 = int (fl - 1)" using fl1 by simp
  have lo: "2 powr (of_int (int fl - 1)) \<le> \<bar>x\<bar>"
    using real_pow2_le [OF b(1)] rn(1) unfolding e1 pow2_powr [symmetric] pow2_nat by linarith
  have hi: "\<bar>x\<bar> < 2 powr (of_int (int fl - 1 + 1))"
    using real_less_pow2_succ [OF b(2)] rn(2) unfolding pow2_powr [symmetric]
    by (simp add: pow2_nat)
  have "\<lfloor>log 2 \<bar>x\<bar>\<rfloor> = int fl - 1"
    using lo hi assms by (subst floor_log_eq_powr_iff) auto
  then show ?thesis using True by (simp add: expo_def bitlen_def fl_def n_def)
next
  case False
  define y where "y = 1 / \<bar>x\<bar>"
  have y1: "1 < y" using False assms by (simp add: y_def)
  define m where "m = nat (\<lceil>y\<rceil> - 1)"
  define fl where "fl = floorlog 2 m"
  have c2: "2 \<le> \<lceil>y\<rceil>" using y1 by linarith
  have m1: "1 \<le> m" unfolding m_def using c2 by linarith
  have mm: "real m = of_int \<lceil>y\<rceil> - 1" using c2 by (simp add: m_def of_nat_nat)
  have rm: "real m < y" "y \<le> real m + 1"
    unfolding mm by linarith+
  from floorlog_bounds [of m 2] m1 have b: "2 ^ (fl - 1) \<le> m" "m < 2 ^ fl"
    by (simp_all add: fl_def)
  have fl1: "1 \<le> fl" using b(2) m1 by (cases fl) auto
  have yhi: "y \<le> 2 ^ fl"
    using real_less_pow2_succ [OF b(2)] rm(2) by linarith
  have ylo: "2 ^ (fl - 1) < y"
    using real_pow2_le [OF b(1)] rm(1) by linarith
  have xa: "\<bar>x\<bar> = 1 / y" using assms by (simp add: y_def)
  have lo: "2 powr (of_int (- int fl)) \<le> \<bar>x\<bar>"
  proof -
    have "1 / 2 ^ fl \<le> 1 / y" using yhi y1 by (simp add: frac_le)
    then show ?thesis unfolding pow2_powr [symmetric] pow2_neg_nat xa .
  qed
  have e1: "- int fl + 1 = - int (fl - 1)" using fl1 by simp
  have hi: "\<bar>x\<bar> < 2 powr (of_int (- int fl + 1))"
  proof -
    have "1 / y < 1 / 2 ^ (fl - 1)"
      using ylo by (simp add: frac_less2)
    then show ?thesis unfolding e1 pow2_powr [symmetric] pow2_neg_nat xa .
  qed
  have "\<lfloor>log 2 \<bar>x\<bar>\<rfloor> = - int fl"
    using lo hi assms by (subst floor_log_eq_powr_iff) auto
  then show ?thesis using False by (simp add: expo_def bitlen_def fl_def m_def y_def)
qed

lemma expo_unique:
  assumes "pow2 k \<le> \<bar>x\<bar>" and "\<bar>x\<bar> < pow2 (k + 1)"
  shows "expo x = k"
proof -
  have x0: "x \<noteq> 0" using assms(1) pow2_pos [of k] by auto
  have "\<lfloor>log 2 \<bar>x\<bar>\<rfloor> = k"
    using assms x0 unfolding pow2_powr by (subst floor_log_eq_powr_iff) auto
  then show ?thesis by (simp add: expo_eq [OF x0])
qed

lemma expo_bounds:
  assumes "x \<noteq> 0"
  shows "pow2 (expo x) \<le> \<bar>x\<bar>" and "\<bar>x\<bar> < pow2 (expo x + 1)"
proof -
  have "\<lfloor>log 2 \<bar>x\<bar>\<rfloor> = expo x" by (simp add: expo_eq [OF assms])
  then have "2 powr (of_int (expo x)) \<le> \<bar>x\<bar> \<and> \<bar>x\<bar> < 2 powr (of_int (expo x + 1))"
    using assms by (subst (asm) floor_log_eq_powr_iff) auto
  then show "pow2 (expo x) \<le> \<bar>x\<bar>" and "\<bar>x\<bar> < pow2 (expo x + 1)"
    by (simp_all add: pow2_powr)
qed

lemma pow2_mono: "k \<le> l \<Longrightarrow> pow2 k \<le> pow2 l"
  by (simp add: pow2_powr powr_mono)

lemma pow2_less_iff: "pow2 k < pow2 l \<longleftrightarrow> k < l"
  by (simp add: pow2_powr)

lemma pow2_le_iff: "pow2 k \<le> pow2 l \<longleftrightarrow> k \<le> l"
  by (simp add: pow2_powr)

lemma pow2_add: "pow2 (a + b) = pow2 a * pow2 b"
  by (simp add: pow2_powr powr_add)

lemma pow2_0: "pow2 0 = 1"
  by (simp add: pow2_def)

lemma pow2_numeral: "pow2 (numeral n) = 2 ^ numeral n"
  by (simp add: pow2_def)

lemma round_even_of_int: "round_even (of_int n) = n"
  by (simp add: round_even_def)

lemma round_even_Ints: "y \<in> \<int> \<Longrightarrow> of_int (round_even y) = y"
  by (auto simp: Ints_def round_even_of_int)

lemma round64_by_exponent:
  assumes "pow2 k \<le> \<bar>x\<bar>" and "\<bar>x\<bar> < pow2 (k + 1)" and "- 1022 \<le> k"
  shows "round64 x =
           (let q = pow2 (k - 52); r = q * of_int (round_even (x / q))
            in if 2 ^ 1024 \<le> r then Infinity
               else if r \<le> - (2 ^ 1024) then NegInfinity
               else Finite r)"
proof -
  have x0: "x \<noteq> 0" using assms(1) pow2_pos [of k] by auto
  have "expo x = k" using assms(1,2) by (rule expo_unique)
  then show ?thesis using x0 assms(3) by (simp add: round64_def max_def)
qed

lemma round64_Ints:
  assumes "x \<in> \<int>" and "\<bar>x\<bar> \<le> 2 ^ 53"
  shows "round64 x = Finite x"
proof (cases "x = 0")
  case True
  then show ?thesis by (simp add: round64_def)
next
  case False
  define e where "e = expo x"
  have b: "pow2 e \<le> \<bar>x\<bar>" "\<bar>x\<bar> < pow2 (e + 1)"
    using expo_bounds [OF False] by (simp_all add: e_def)
  have x1: "1 \<le> \<bar>x\<bar>"
  proof -
    from assms(1) obtain n where n: "x = of_int n" by (auto simp: Ints_def)
    with False have "n \<noteq> 0" by auto
    then have "1 \<le> \<bar>n\<bar>" by linarith
    then have "(1::real) \<le> of_int \<bar>n\<bar>" by (simp only: of_int_1_le_iff)
    then show ?thesis by (simp add: n)
  qed
  have e0: "0 \<le> e"
  proof -
    have "pow2 0 < pow2 (e + 1)" using x1 b(2) by (simp add: pow2_0)
    then show ?thesis by (simp add: pow2_less_iff)
  qed
  have e53: "e \<le> 53"
  proof -
    have "pow2 e \<le> pow2 53" using b(1) assms(2) by (simp add: pow2_numeral)
    then show ?thesis by (simp add: pow2_le_iff)
  qed
  define q where "q = pow2 (e - 52)"
  have q0: "0 < q" by (simp add: q_def pow2_pos)
  have int: "x / q \<in> \<int>"
  proof (cases "e \<le> 52")
    case True
    have "q = 1 / 2 ^ nat (52 - e)"
      using pow2_neg_nat [of "nat (52 - e)"] True by (simp add: q_def)
    then have "x / q = x * 2 ^ nat (52 - e)" by simp
    then show ?thesis using assms(1) by simp
  next
    case False
    with e53 have e: "e = 53" by simp
    have "\<bar>x\<bar> = 2 ^ 53" using b(1) assms(2) by (simp add: e pow2_numeral)
    then have "x = 2 ^ 53 \<or> x = - (2 ^ 53)" by linarith
    moreover have "q = 2" by (simp add: q_def e pow2_def)
    ultimately show ?thesis by auto
  qed
  have r: "q * of_int (round_even (x / q)) = x"
    using q0 by (simp add: round_even_Ints [OF int])
  have small: "\<not> (2::real) ^ 1024 \<le> x" "\<not> x \<le> - ((2::real) ^ 1024)"
  proof -
    have "(2::real) ^ 53 < 2 ^ 1024" by simp
    with assms(2) show "\<not> (2::real) ^ 1024 \<le> x" "\<not> x \<le> - ((2::real) ^ 1024)"
      by linarith+
  qed
  have "max e (- 1022) = e" using e0 by simp
  then show ?thesis
    using False r small by (simp add: round64_def e_def [symmetric] q_def [symmetric] Let_def)
qed

lemma round64_tie_down: "round64 (2 ^ 53 + 1) = Finite (2 ^ 53)"
proof -
  have "round64 (2 ^ 53 + 1) =
           (let q = pow2 (53 - 52); r = q * of_int (round_even ((2 ^ 53 + 1) / q))
            in if 2 ^ 1024 \<le> r then Infinity
               else if r \<le> - (2 ^ 1024) then NegInfinity
               else Finite r)"
    by (rule round64_by_exponent) (simp_all add: pow2_def)
  then show ?thesis
    by (simp add: pow2_def round_even_def Let_def)
qed

lemma round64_even_above: "round64 (2 ^ 53 + 2) = Finite (2 ^ 53 + 2)"
proof -
  have "round64 (2 ^ 53 + 2) =
           (let q = pow2 (53 - 52); r = q * of_int (round_even ((2 ^ 53 + 2) / q))
            in if 2 ^ 1024 \<le> r then Infinity
               else if r \<le> - (2 ^ 1024) then NegInfinity
               else Finite r)"
    by (rule round64_by_exponent) (simp_all add: pow2_def)
  then show ?thesis
    by (simp add: pow2_def round_even_def Let_def)
qed

lemma example_sum: "dadd (Finite 0) (Finite 40) = Finite 40"
  by (simp add: round64_Ints)

lemma example_quotient: "dmul (ddiv (Finite 40) (Finite 10)) (Finite 100) = Finite 400"
  by (simp add: round64_Ints)

lemma example_negative: "dmul (ddiv (Finite 40) (Finite (- 5))) (Finite 100) = Finite (- 800)"
  by (simp add: round64_Ints)

lemma example_analysis_covered:
  "performAnalysis example_conv example_distance (Rectangle example_box)
     [Some example_area] [Some example_bunker] =
     Inr \<lparr>totalPopulation = Finite 10, areasIntersected = 1, areasProcessed = 1,
          areasWithErrors = 0, totalShelterCapacity = Finite 40, bunkersInside = 1,
          coveragePercentage = Finite 400\<rparr>"
  by (simp add: analysis_defs example_defs round64_Ints)

subsection \<open>The callbacks on rows that are objects\<close>

lemma population_callback_Inr:
  "\<exists>st'. population_callback conv d shape (Some a) st = Inr st'"
  by (simp add: population_callback_def Let_def split: option.splits sum.splits prod.splits)

lemma bunker_callback_Inr:
  "\<exists>st'. bunker_callback conv d shape (Some b) st = Inr st'"
  by (simp add: bunker_callback_def split: option.splits sum.splits prod.splits)

subsection \<open>Coordinate normalisation\<close>

text \<open>
  Claim C3. A coordinate pair \<open>(x, y)\<close> with \<open>x \<le> 180\<close> and \<open>y \<le> 90\<close> (negative
  values, zero and the bounds 180 and 90 included) takes the geographic path: it comes
  back as \<open>(y, x)\<close>, whatever the conversion would do. The pair is converted exactly
  when \<open>x > 180\<close> or \<open>y > 90\<close>, and the \<open>[lng, lat]\<close> of the conversion is swapped to
  \<open>(lat, lng)\<close>.
\<close>

theorem normalizeCoord_geographic_or_projected:
  "(x \<le> 180 \<and> y \<le> 90 \<longrightarrow> normalizeCoord conv (Num x, Num y) = Inr (Num y, Num x)) \<and>
   (x > 180 \<or> y > 90 \<longrightarrow>
      normalizeCoord conv (Num x, Num y) =
        (case conv (Num x) (Num y) of
           Inl e \<Rightarrow> Inl e
         | Inr (lng', lat') \<Rightarrow> Inr (lat', lng')))"
  by (auto simp: normalizeCoord_def split: sum.splits)

theorem normalizeCoord_geographic_or_projected_witness:
  "(180::real) \<le> 180 \<and> (90::real) \<le> 90 \<and>
   normalizeCoord failing_conv (Num 180, Num 90) = Inr (Num 90, Num 180) \<and>
   (-200::real) \<le> 180 \<and> (0::real) \<le> 90 \<and>
   normalizeCoord failing_conv (Num (-200), Num 0) = Inr (Num 0, Num (-200)) \<and>
   ((200000::real) > 180 \<or> (300000::real) > 90) \<and>
   normalizeCoord example_conv (Num 200000, Num 300000) = Inr (Num 3, Num 2) \<and>
   normalizeCoord failing_conv (Num 10, Num 91) = Inl ConversionError"
  using normalizeCoord_geographic_or_projected [of 180 90 failing_conv]
    normalizeCoord_geographic_or_projected [of "-200" 0 failing_conv]
    normalizeCoord_geographic_or_projected [of 200000 300000 example_conv]
    normalizeCoord_geographic_or_projected [of 10 91 failing_conv]
  by (simp add: example_conv_def failing_conv_def)

subsection \<open>Rows that are skipped\<close>

lemma area_data_falsy: "\<not> truthy (poptot a) \<Longrightarrow> area_data a = None"
  by (cases "poptot a") (simp_all add: area_data_def split: option.splits)

lemma bunker_data_falsy: "\<not> truthy (plasser b) \<Longrightarrow> bunker_data b = None"
  by (cases "plasser b") (simp_all add: bunker_data_def split: option.splits)

lemma population_callback_skip:
  "area_data a = None \<Longrightarrow>
   population_callback conv d shape (Some a) st = Inr (st\<lparr>areasProcessed := areasProcessed st + 1\<rparr>)"
  by (simp add: population_callback_def)

lemma bunker_callback_skip:
  "bunker_data b = None \<Longrightarrow> bunker_callback conv d shape (Some b) st = Inr st"
  by (simp add: bunker_callback_def)

text \<open>
  Claim C10. A population of exactly 0 and a capacity of exactly 0 fail the presence test
  as a missing field does: the population row only counts as processed, the bunker row
  changes nothing, whatever their geometry and the drawn shape.
\<close>

theorem zero_is_skipped_like_absent:
  "population_callback conv d shape (Some (a\<lparr>poptot := Num 0\<rparr>)) st =
     population_callback conv d shape (Some (a\<lparr>poptot := Undefined\<rparr>)) st \<and>
   population_callback conv d shape (Some (a\<lparr>poptot := Num 0\<rparr>)) st =
     Inr (st\<lparr>areasProcessed := areasProcessed st + 1\<rparr>) \<and>
   bunker_callback conv d shape (Some (b\<lparr>plasser := Num 0\<rparr>)) st =
     bunker_callback conv d shape (Some (b\<lparr>plasser := Undefined\<rparr>)) st \<and>
   bunker_callback conv d shape (Some (b\<lparr>plasser := Num 0\<rparr>)) st = Inr st"
  by (simp add: population_callback_skip bunker_callback_skip area_data_falsy bunker_data_falsy)

theorem zero_is_skipped_like_absent_witness:
  "population_callback example_conv example_distance (Rectangle example_box)
     (Some (example_area\<lparr>poptot := Num 0\<rparr>)) init_vars =
     Inr (init_vars\<lparr>areasProcessed := 1\<rparr>) \<and>
   population_callback example_conv example_distance (Rectangle example_box)
     (Some example_area) init_vars =
     Inr (init_vars\<lparr>areasProcessed := 1, areasIntersected := 1, totalPopulation := Finite 10\<rparr>) \<and>
   bunker_callback example_conv example_distance (Rectangle example_box)
     (Some (example_bunker\<lparr>plasser := Num 0\<rparr>)) init_vars = Inr init_vars \<and>
   bunker_callback example_conv example_distance (Rectangle example_box)
     (Some example_bunker) init_vars =
     Inr (init_vars\<lparr>bunkersInside := 1, totalShelterCapacity := Finite 40\<rparr>)"
  using zero_is_skipped_like_absent [of example_conv example_distance "Rectangle example_box"
      example_area init_vars example_bunker]
  by (simp add: analysis_defs example_defs round64_Ints)

text \<open>
  Claim C5, as the code has it. A population row without \<open>poptot\<close> is skipped and no
  error is counted, but it is counted as processed: \<open>areasProcessed\<close> goes up by one
  before the presence test.
\<close>

theorem missing_poptot_counts_as_processed:
  "poptot a = Undefined \<Longrightarrow>
   population_callback conv d shape (Some a) st = Inr (st\<lparr>areasProcessed := areasProcessed st + 1\<rparr>)"
  by (simp add: population_callback_skip area_data_falsy)

theorem missing_poptot_counts_as_processed_witness:
  "poptot (example_area\<lparr>poptot := Undefined\<rparr>) = Undefined \<and>
   population_callback example_conv example_distance (Rectangle example_box)
     (Some (example_area\<lparr>poptot := Undefined\<rparr>)) init_vars =
     Inr \<lparr>totalPopulation = Finite 0, areasIntersected = 0, areasProcessed = 1,
          areasWithErrors = 0, totalShelterCapacity = Finite 0, bunkersInside = 0\<rparr>"
  using missing_poptot_counts_as_processed [of "example_area\<lparr>poptot := Undefined\<rparr>"
      example_conv example_distance "Rectangle example_box" init_vars]
  by (simp add: init_vars_def)

text \<open>
  The claim as the specification words it (\<open>areasProcessed\<close> not incremented) fails on
  a dataset whose only row has no \<open>poptot\<close>: the analysis reports one processed area.
\<close>

theorem missing_poptot_not_processed_counterexample:
  "performAnalysis example_conv example_distance (Rectangle example_box)
     [Some (example_area\<lparr>poptot := Undefined\<rparr>)] [] =
     Inr \<lparr>totalPopulation = Finite 0, areasIntersected = 0, areasProcessed = 1, areasWithErrors = 0,
          totalShelterCapacity = Finite 0, bunkersInside = 0, coveragePercentage = Finite 0\<rparr> \<and>
   areasProcessed \<lparr>totalPopulation = Finite 0, areasIntersected = 0, areasProcessed = 1,
          areasWithErrors = 0, totalShelterCapacity = Finite 0, bunkersInside = 0,
          coveragePercentage = Finite 0\<rparr> \<noteq> 0"
  by (simp add: analysis_defs example_defs round64_Ints)

subsection \<open>Rings with too few vertices\<close>

text \<open>
  Claim C6, as the code has it. A population row whose ring keeps fewer than 3 vertices
  after the conversion is left at the \<open>return\<close> of line 291: it adds nothing to the
  population total or to the intersected count, and \<open>areasWithErrors\<close> is not
  incremented (the row only counts as processed).
\<close>

theorem short_ring_is_skipped_silently:
  assumes "area_data a = Some (cs, p)"
      and "length (convertedCoords conv (case cs of [] \<Rightarrow> [] | ring # _ \<Rightarrow> ring)) < 3"
  shows "population_callback conv d shape (Some a) st =
           Inr (st\<lparr>areasProcessed := areasProcessed st + 1\<rparr>)"
  using assms by (simp add: population_callback_def area_try_def)

theorem short_ring_is_skipped_silently_witness:
  "area_data short_area = Some ([[(Num 1, Num 2), (Num 3, Num 4)]], 100) \<and>
   length (convertedCoords example_conv [(Num 1, Num 2), (Num 3, Num 4)]) < 3 \<and>
   population_callback example_conv example_distance (Rectangle example_box) (Some short_area)
     init_vars =
     Inr \<lparr>totalPopulation = Finite 0, areasIntersected = 0, areasProcessed = 1,
          areasWithErrors = 0, totalShelterCapacity = Finite 0, bunkersInside = 0\<rparr>"
proof -
  have h1: "area_data short_area = Some ([[(Num 1, Num 2), (Num 3, Num 4)]], 100)"
    by (simp add: area_data_def short_area_def)
  have h2: "length (convertedCoords example_conv
              (case [[(Num 1, Num 2), (Num 3, Num 4)]] of [] \<Rightarrow> [] | ring # _ \<Rightarrow> ring)) < 3"
    by (simp add: convertedCoords_def convertCoord_def normalizeCoord_def)
  show ?thesis
    using h1 h2 short_ring_is_skipped_silently [OF h1 h2, of example_distance
        "Rectangle example_box" init_vars]
    by (simp add: init_vars_def)
qed

text \<open>
  The claim as the specification words it (\<open>areasWithErrors\<close> incremented) fails on a
  row with a ring of two geographic coordinates: no error is counted.
\<close>

theorem short_ring_counts_error_counterexample:
  "performAnalysis example_conv example_distance (Rectangle example_box) [Some short_area] [] =
     Inr \<lparr>totalPopulation = Finite 0, areasIntersected = 0, areasProcessed = 1, areasWithErrors = 0,
          totalShelterCapacity = Finite 0, bunkersInside = 0, coveragePercentage = Finite 0\<rparr> \<and>
   length (convertedCoords example_conv [(Num 1, Num 2), (Num 3, Num 4)]) = 2"
  by (simp add: analysis_defs example_defs round64_Ints)

subsection \<open>Bunkers\<close>

lemma bunker_data_present:
  "bgeom b = Some \<lparr>coordinates = Some c\<rparr> \<Longrightarrow> plasser b = Num p \<Longrightarrow> p \<noteq> 0 \<Longrightarrow>
   bunker_data b = Some (c, p)"
  by (simp add: bunker_data_def)

text \<open>
  Claim C7. A bunker with a location and a capacity whose converted location is a valid
  point is counted (one more bunker inside, its capacity added) exactly when: for a
  circle, the distance from the point to the centre is at most the radius; for a
  rectangle or a drawn polygon, the point lies in the bounding box of the shape.
\<close>

theorem bunker_counted_iff_inside:
  assumes "bgeom b = Some \<lparr>coordinates = Some (e, n)\<rparr>" and "plasser b = Num p" and "p \<noteq> 0"
      and "conv e n = Inr (Num lng', Num lat')"
  shows "bunker_callback conv d (Circle c r cb) (Some b) st =
           Inr (if d \<lparr>lat = lat', lng = lng'\<rparr> c \<le> r
                then st\<lparr>bunkersInside := bunkersInside st + 1,
                        totalShelterCapacity := dadd (totalShelterCapacity st) (Finite p)\<rparr>
                else st) \<and>
         bunker_callback conv d (Rectangle sb) (Some b) st =
           Inr (if south sb \<le> lat' \<and> lat' \<le> north sb \<and> west sb \<le> lng' \<and> lng' \<le> east sb
                then st\<lparr>bunkersInside := bunkersInside st + 1,
                        totalShelterCapacity := dadd (totalShelterCapacity st) (Finite p)\<rparr>
                else st) \<and>
         bunker_callback conv d (Polygon sb) (Some b) st =
           Inr (if south sb \<le> lat' \<and> lat' \<le> north sb \<and> west sb \<le> lng' \<and> lng' \<le> east sb
                then st\<lparr>bunkersInside := bunkersInside st + 1,
                        totalShelterCapacity := dadd (totalShelterCapacity st) (Finite p)\<rparr>
                else st)"
  using bunker_data_present [OF assms(1-3)] assms(4)
  by (simp add: bunker_callback_def bunker_try_def bunkerLatLng_def contains_def)

theorem bunker_counted_iff_inside_witness:
  "bgeom example_bunker = Some \<lparr>coordinates = Some (Num 500000, Num 600000)\<rparr> \<and>
   plasser example_bunker = Num 40 \<and> (40::real) \<noteq> 0 \<and>
   example_conv (Num 500000) (Num 600000) = Inr (Num 5, Num 6) \<and>
   bunker_callback example_conv example_distance
     (Circle \<lparr>lat = 6, lng = 5\<rparr> 1000 example_box) (Some example_bunker) init_vars =
     Inr (init_vars\<lparr>bunkersInside := 1, totalShelterCapacity := Finite 40\<rparr>) \<and>
   bunker_callback example_conv example_distance example_circle
     (Some example_bunker) init_vars =
     Inr init_vars \<and>
   bunker_callback example_conv example_distance (Rectangle example_box)
     (Some example_bunker) init_vars =
     Inr (init_vars\<lparr>bunkersInside := 1, totalShelterCapacity := Finite 40\<rparr>) \<and>
   bunker_callback example_conv example_distance
     (Polygon \<lparr>south = 0, west = 0, north = 5, east = 5\<rparr>) (Some example_bunker) init_vars =
     Inr init_vars"
proof -
  have h1: "bgeom example_bunker = Some \<lparr>coordinates = Some (Num 500000, Num 600000)\<rparr>"
    by (simp add: example_bunker_def)
  have h2: "plasser example_bunker = Num 40"
    by (simp add: example_bunker_def)
  have h3: "(40::real) \<noteq> 0"
    by simp
  have h4: "example_conv (Num 500000) (Num 600000) = Inr (Num 5, Num 6)"
    by (simp add: example_conv_def)
  note inst = bunker_counted_iff_inside [where conv = example_conv and b = example_bunker
      and e = "Num 500000" and n = "Num 600000" and d = example_distance and st = init_vars,
      OF h1 h2 h3 h4]
  show ?thesis
    using h1 h2 h4
      inst [where c = "\<lparr>lat = 6, lng = 5\<rparr>" and r = 1000 and cb = example_box
        and sb = example_box]
      inst [where c = "\<lparr>lat = 5, lng = 5\<rparr>" and r = 1000
        and cb = "\<lparr>south = 4, west = 4, north = 6, east = 6\<rparr>"
        and sb = "\<lparr>south = 0, west = 0, north = 5, east = 5\<rparr>"]
    by (simp add: example_distance_def example_box_def example_circle_def init_vars_def
        round64_Ints)
qed

text \<open>
  Claim C8. The location of a bunker with a location and a capacity always goes through
  the conversion: no comparison with 180 or 90 is made, and what happens to the row is
  decided by the conversion's result alone, also for coordinates within the geographic
  range.
\<close>

theorem bunker_always_converted:
  assumes "bgeom b = Some \<lparr>coordinates = Some (e, n)\<rparr>" and "plasser b = Num p" and "p \<noteq> 0"
  shows "bunker_callback conv d shape (Some b) st =
           (case conv e n of
              Inl err \<Rightarrow> Inr st
            | Inr (lng', lat') \<Rightarrow>
                (case L_latLng lat' lng' of
                   Inl err \<Rightarrow> Inr st
                 | Inr point \<Rightarrow>
                     Inr (if isInside d shape point
                          then st\<lparr>bunkersInside := bunkersInside st + 1,
                                  totalShelterCapacity := dadd (totalShelterCapacity st) (Finite p)\<rparr>
                          else st)))"
  using bunker_data_present [OF assms]
  by (simp add: bunker_callback_def bunker_try_def bunkerLatLng_def split: sum.splits prod.splits)

theorem bunker_always_converted_witness:
  "bgeom near_bunker = Some \<lparr>coordinates = Some (Num 5, Num 6)\<rparr> \<and>
   plasser near_bunker = Num 15 \<and> (15::real) \<noteq> 0 \<and>
   normalizeCoord failing_conv (Num 5, Num 6) = Inr (Num 6, Num 5) \<and>
   bunker_callback failing_conv example_distance (Rectangle example_box)
     (Some near_bunker) init_vars =
     Inr init_vars \<and>
   bunker_callback example_conv example_distance
     (Rectangle \<lparr>south = 1, west = 1, north = 10, east = 10\<rparr>) (Some near_bunker) init_vars =
     Inr init_vars \<and>
   bunker_callback example_conv example_distance (Rectangle example_box)
     (Some near_bunker) init_vars =
     Inr (init_vars\<lparr>bunkersInside := 1, totalShelterCapacity := Finite 15\<rparr>)"
proof -
  have h1: "bgeom near_bunker = Some \<lparr>coordinates = Some (Num 5, Num 6)\<rparr>"
    by (simp add: near_bunker_def)
  have h2: "plasser near_bunker = Num 15"
    by (simp add: near_bunker_def)
  have h3: "(15::real) \<noteq> 0"
    by simp
  note inst = bunker_always_converted [where b = near_bunker and e = "Num 5" and n = "Num 6"
      and d = example_distance and st = init_vars, OF h1 h2 h3]
  show ?thesis
    using h1 h2
      inst [where conv = failing_conv and shape = "Rectangle example_box"]
      inst [where conv = example_conv
        and shape = "Rectangle \<lparr>south = 1, west = 1, north = 10, east = 10\<rparr>"]
      inst [where conv = example_conv and shape = "Rectangle example_box"]
    by (simp add: example_conv_def failing_conv_def example_box_def contains_def init_vars_def
        normalizeCoord_def round64_Ints)
qed

subsection \<open>Rings against a circle\<close>

lemma vertexInCircle_iff:
  "vertexInCircle d c r ps \<longleftrightarrow> (\<exists>p\<in>set ps. d p c \<le> r)"
  by (induction ps) auto

lemma Min_insert_min:
  fixes a b :: real
  assumes "finite S"
  shows "Min (insert (min a b) S) = Min (insert b (insert a S))"
proof (cases "S = {}")
  case True
  then show ?thesis by (simp add: min.commute)
next
  case False
  with assms show ?thesis by (simp add: min.assoc min.commute)
qed

lemma Max_insert_max:
  fixes a b :: real
  assumes "finite S"
  shows "Max (insert (max a b) S) = Max (insert b (insert a S))"
proof (cases "S = {}")
  case True
  then show ?thesis by (simp add: max.commute)
next
  case False
  with assms show ?thesis by (simp add: max.assoc max.commute)
qed

lemma foldl_bounds_extend_Some:
  "\<exists>pb. foldl bounds_extend (Some b) ps = Some pb \<and>
     south pb = Min (insert (south b) (lat ` set ps)) \<and>
     north pb = Max (insert (north b) (lat ` set ps)) \<and>
     west pb = Min (insert (west b) (lng ` set ps)) \<and>
     east pb = Max (insert (east b) (lng ` set ps))"
proof (induction ps arbitrary: b)
  case Nil
  show ?case by simp
next
  case (Cons p ps)
  define b' where "b' = \<lparr>south = min (lat p) (south b), west = min (lng p) (west b),
              north = max (lat p) (north b), east = max (lng p) (east b)\<rparr>"
  from Cons.IH [of b'] obtain pb where pb: "foldl bounds_extend (Some b') ps = Some pb"
    "south pb = Min (insert (south b') (lat ` set ps))"
    "north pb = Max (insert (north b') (lat ` set ps))"
    "west pb = Min (insert (west b') (lng ` set ps))"
    "east pb = Max (insert (east b') (lng ` set ps))"
    by blast
  have step: "foldl bounds_extend (Some b) (p # ps) = Some pb"
    using pb(1) by (simp add: b'_def)
  have s: "south pb = Min (insert (south b) (lat ` set (p # ps)))"
    using pb(2) Min_insert_min [of "lat ` set ps" "lat p" "south b"] by (simp add: b'_def)
  have n: "north pb = Max (insert (north b) (lat ` set (p # ps)))"
    using pb(3) Max_insert_max [of "lat ` set ps" "lat p" "north b"] by (simp add: b'_def)
  have w: "west pb = Min (insert (west b) (lng ` set (p # ps)))"
    using pb(4) Min_insert_min [of "lng ` set ps" "lng p" "west b"] by (simp add: b'_def)
  have e: "east pb = Max (insert (east b) (lng ` set (p # ps)))"
    using pb(5) Max_insert_max [of "lng ` set ps" "lng p" "east b"] by (simp add: b'_def)
  from step s n w e show ?case by blast
qed

lemma getBounds_bounding_box:
  assumes "ps \<noteq> []"
  shows "\<exists>pb. getBounds ps = Some pb \<and>
     south pb = Min (lat ` set ps) \<and> north pb = Max (lat ` set ps) \<and>
     west pb = Min (lng ` set ps) \<and> east pb = Max (lng ` set ps)"
proof -
  from assms obtain p qs where ps: "ps = p # qs" by (cases ps) auto
  from foldl_bounds_extend_Some
      [of "\<lparr>south = lat p, west = lng p, north = lat p, east = lng p\<rparr>" qs]
  obtain pb where pb:
    "foldl bounds_extend (Some \<lparr>south = lat p, west = lng p, north = lat p, east = lng p\<rparr>) qs
       = Some pb"
    "south pb = Min (insert (lat p) (lat ` set qs))"
    "north pb = Max (insert (lat p) (lat ` set qs))"
    "west pb = Min (insert (lng p) (lng ` set qs))"
    "east pb = Max (insert (lng p) (lng ` set qs))"
    by auto
  have "getBounds ps = Some pb"
    using pb(1) by (simp add: getBounds_def ps)
  with pb(2-5) show ?thesis by (simp add: ps)
qed

lemma L_polygon_length: "L_polygon cs = Inr ps \<Longrightarrow> length ps = length cs"
  by (induction cs arbitrary: ps) (auto split: sum.splits)

text \<open>
  Claim C4. For a circle and a ring that keeps at least 3 valid vertices, the ring is
  classified as intersecting exactly when its bounding box (from the least to the
  greatest latitude and longitude of its vertices) overlaps the bounding box of the
  circle, bounds included, and some vertex is within the radius of the centre. So a
  ring with no vertex within the radius is not intersecting, also when it surrounds the
  circle.
\<close>

theorem ring_intersects_circle_iff:
  assumes "convertedCoords conv (case rings of [] \<Rightarrow> [] | ring # _ \<Rightarrow> ring) = cs"
      and "3 \<le> length cs"
      and "L_polygon cs = Inr ps"
  shows "area_try conv d (Circle c r sb) rings =
           Inr (Some ((Min (lat ` set ps) \<le> north sb \<and> south sb \<le> Max (lat ` set ps) \<and>
                       Min (lng ` set ps) \<le> east sb \<and> west sb \<le> Max (lng ` set ps)) \<and>
                      (\<exists>p\<in>set ps. d p c \<le> r))) \<and>
         ((\<forall>p\<in>set ps. r < d p c) \<longrightarrow>
            area_try conv d (Circle c r sb) rings = Inr (Some False))"
proof -
  have "ps \<noteq> []"
    using L_polygon_length [OF assms(3)] assms(2) by auto
  from getBounds_bounding_box [OF this] obtain pb where pb: "getBounds ps = Some pb"
    "south pb = Min (lat ` set ps)" "north pb = Max (lat ` set ps)"
    "west pb = Min (lng ` set ps)" "east pb = Max (lng ` set ps)"
    by blast
  have test: "isIntersecting d (Circle c r sb) cs =
                Inr (intersects pb sb \<and> (\<exists>p\<in>set ps. d p c \<le> r))"
    by (simp add: isIntersecting_def assms(3) pb(1) vertexInCircle_iff)
  have boxes: "intersects pb sb \<longleftrightarrow>
      Min (lat ` set ps) \<le> north sb \<and> south sb \<le> Max (lat ` set ps) \<and>
      Min (lng ` set ps) \<le> east sb \<and> west sb \<le> Max (lng ` set ps)"
    by (simp add: intersects_def pb(2-5))
  have body: "area_try conv d (Circle c r sb) rings =
           Inr (Some ((Min (lat ` set ps) \<le> north sb \<and> south sb \<le> Max (lat ` set ps) \<and>
                       Min (lng ` set ps) \<le> east sb \<and> west sb \<le> Max (lng ` set ps)) \<and>
                      (\<exists>p\<in>set ps. d p c \<le> r)))"
    using assms(1,2) test by (simp add: area_try_def boxes)
  have "(\<forall>p\<in>set ps. r < d p c) \<longrightarrow> area_try conv d (Circle c r sb) rings = Inr (Some False)"
    using body by (auto simp: not_le [symmetric])
  with body show ?thesis by blast
qed

theorem ring_intersects_circle_iff_witness:
  "L_polygon (convertedCoords example_conv surrounding_ring) =
     Inr [\<lparr>lat = 0, lng = 0\<rparr>, \<lparr>lat = 0, lng = 10\<rparr>, \<lparr>lat = 10, lng = 10\<rparr>,
          \<lparr>lat = 10, lng = 0\<rparr>] \<and>
   area_try example_conv example_distance
     (Circle \<lparr>lat = 5, lng = 5\<rparr> 1000 \<lparr>south = 4, west = 4, north = 6, east = 6\<rparr>)
     [surrounding_ring] = Inr (Some False) \<and>
   L_polygon (convertedCoords example_conv touching_ring) =
     Inr [\<lparr>lat = 5.001, lng = 5\<rparr>, \<lparr>lat = 9, lng = 8\<rparr>, \<lparr>lat = 8, lng = 9\<rparr>] \<and>
   example_distance \<lparr>lat = 5.001, lng = 5\<rparr> \<lparr>lat = 5, lng = 5\<rparr> \<le> 1000 \<and>
   area_try example_conv example_distance
     (Circle \<lparr>lat = 5, lng = 5\<rparr> 1000 \<lparr>south = 4, west = 4, north = 6, east = 6\<rparr>)
     [touching_ring] = Inr (Some True) \<and>
   L_polygon (convertedCoords example_conv distant_ring) =
     Inr [\<lparr>lat = 20, lng = 5\<rparr>, \<lparr>lat = 21, lng = 6\<rparr>, \<lparr>lat = 22, lng = 5\<rparr>] \<and>
   example_distance \<lparr>lat = 20, lng = 5\<rparr> \<lparr>lat = 5, lng = 5\<rparr> \<le> 2000000 \<and>
   area_try example_conv example_distance
     (Circle \<lparr>lat = 5, lng = 5\<rparr> 2000000 \<lparr>south = 4, west = 4, north = 6, east = 6\<rparr>)
     [distant_ring] = Inr (Some False) \<and>
   area_try example_conv example_distance
     (Circle \<lparr>lat = 5, lng = 5\<rparr> 2000000 \<lparr>south = 4, west = 4, north = 20, east = 6\<rparr>)
     [distant_ring] = Inr (Some True)"
proof -
  have h1: "convertedCoords example_conv
      (case [surrounding_ring] of [] \<Rightarrow> [] | ring # _ \<Rightarrow> ring) =
     [(Num 0, Num 0), (Num 0, Num 10), (Num 10, Num 10), (Num 10, Num 0)]"
    by (simp add: surrounding_ring_def convertedCoords_def convertCoord_def normalizeCoord_def)
  have h2: "3 \<le> length [(Num 0, Num 0), (Num 0, Num 10), (Num 10, Num 10), (Num 10, Num (0::real))]"
    by simp
  have h3: "L_polygon [(Num 0, Num 0), (Num 0, Num 10), (Num 10, Num 10), (Num 10, Num 0)] =
     Inr [\<lparr>lat = 0, lng = 0\<rparr>, \<lparr>lat = 0, lng = 10\<rparr>, \<lparr>lat = 10, lng = 10\<rparr>,
          \<lparr>lat = 10, lng = 0\<rparr>]"
    by simp
  have k1: "convertedCoords example_conv
      (case [touching_ring] of [] \<Rightarrow> [] | ring # _ \<Rightarrow> ring) =
     [(Num 5.001, Num 5), (Num 9, Num 8), (Num 8, Num 9)]"
    by (simp add: touching_ring_def convertedCoords_def convertCoord_def normalizeCoord_def)
  have k2: "3 \<le> length [(Num 5.001, Num 5), (Num 9, Num 8), (Num 8, Num (9::real))]"
    by simp
  have k3: "L_polygon [(Num 5.001, Num 5), (Num 9, Num 8), (Num 8, Num 9)] =
     Inr [\<lparr>lat = 5.001, lng = 5\<rparr>, \<lparr>lat = 9, lng = 8\<rparr>, \<lparr>lat = 8, lng = 9\<rparr>]"
    by simp
  have m1: "convertedCoords example_conv
      (case [distant_ring] of [] \<Rightarrow> [] | ring # _ \<Rightarrow> ring) =
     [(Num 20, Num 5), (Num 21, Num 6), (Num 22, Num 5)]"
    by (simp add: distant_ring_def convertedCoords_def convertCoord_def normalizeCoord_def)
  have m2: "3 \<le> length [(Num 20, Num 5), (Num 21, Num 6), (Num 22, Num (5::real))]"
    by simp
  have m3: "L_polygon [(Num 20, Num 5), (Num 21, Num 6), (Num 22, Num 5)] =
     Inr [\<lparr>lat = 20, lng = 5\<rparr>, \<lparr>lat = 21, lng = 6\<rparr>, \<lparr>lat = 22, lng = 5\<rparr>]"
    by simp
  have far: "area_try example_conv example_distance
     (Circle \<lparr>lat = 5, lng = 5\<rparr> 1000 \<lparr>south = 4, west = 4, north = 6, east = 6\<rparr>)
     [surrounding_ring] = Inr (Some False)"
    using ring_intersects_circle_iff [where conv = example_conv and rings = "[surrounding_ring]"
        and d = example_distance and c = "\<lparr>lat = 5, lng = 5\<rparr>" and r = 1000
        and sb = "\<lparr>south = 4, west = 4, north = 6, east = 6\<rparr>", OF h1 h2 h3]
    by (simp add: example_distance_def)
  have near: "area_try example_conv example_distance
     (Circle \<lparr>lat = 5, lng = 5\<rparr> 1000 \<lparr>south = 4, west = 4, north = 6, east = 6\<rparr>)
     [touching_ring] = Inr (Some True)"
    using ring_intersects_circle_iff [where conv = example_conv and rings = "[touching_ring]"
        and d = example_distance and c = "\<lparr>lat = 5, lng = 5\<rparr>" and r = 1000
        and sb = "\<lparr>south = 4, west = 4, north = 6, east = 6\<rparr>", OF k1 k2 k3]
    by (simp add: example_distance_def)
  have missed: "area_try example_conv example_distance
     (Circle \<lparr>lat = 5, lng = 5\<rparr> 2000000 \<lparr>south = 4, west = 4, north = 6, east = 6\<rparr>)
     [distant_ring] = Inr (Some False)"
    using ring_intersects_circle_iff [where conv = example_conv and rings = "[distant_ring]"
        and d = example_distance and c = "\<lparr>lat = 5, lng = 5\<rparr>" and r = 2000000
        and sb = "\<lparr>south = 4, west = 4, north = 6, east = 6\<rparr>", OF m1 m2 m3]
    by (simp add: example_distance_def)
  have reached: "area_try example_conv example_distance
     (Circle \<lparr>lat = 5, lng = 5\<rparr> 2000000 \<lparr>south = 4, west = 4, north = 20, east = 6\<rparr>)
     [distant_ring] = Inr (Some True)"
    using ring_intersects_circle_iff [where conv = example_conv and rings = "[distant_ring]"
        and d = example_distance and c = "\<lparr>lat = 5, lng = 5\<rparr>" and r = 2000000
        and sb = "\<lparr>south = 4, west = 4, north = 20, east = 6\<rparr>", OF m1 m2 m3]
    by (simp add: example_distance_def)
  show ?thesis
    using h1 h3 k1 k3 m1 m3 far near missed reached
    by (simp add: example_distance_def)
qed

subsection \<open>The coverage\<close>

lemma performAnalysis_coverage:
  "performAnalysis conv d shape populationData bunkerData = Inr r \<Longrightarrow>
   coveragePercentage r = coverage (totalShelterCapacity r) (totalPopulation r)"
  by (auto simp: performAnalysis_def split: sum.splits)

text \<open>
  Claim C2, as the code has it. The coverage percentage of the result is the total
  shelter capacity divided by the total population, times 100, in double arithmetic and
  without a clamp, exactly when the total population is greater than 0. When it is 0
  the coverage is 0 for every capacity, and no error is signalled; it is 0 as well when
  the total population is negative.
\<close>

theorem coverage_of_analysis:
  assumes "performAnalysis conv d shape populationData bunkerData = Inr r"
  shows "(totalPopulation r = Finite 0 \<longrightarrow> coveragePercentage r = Finite 0) \<and>
         (\<forall>P. totalPopulation r = Finite P \<and> P \<le> 0 \<longrightarrow> coveragePercentage r = Finite 0) \<and>
         (\<forall>P. totalPopulation r = Finite P \<and> 0 < P \<longrightarrow>
            coveragePercentage r =
              dmul (ddiv (totalShelterCapacity r) (totalPopulation r)) (Finite 100)) \<and>
         (\<forall>P C. totalPopulation r = Finite P \<and> 0 < P \<and> totalShelterCapacity r = Finite C \<longrightarrow>
            coveragePercentage r = dmul (round64 (C / P)) (Finite 100) \<and>
            (\<forall>q. round64 (C / P) = Finite q \<longrightarrow> coveragePercentage r = round64 (q * 100))) \<and>
         (totalPopulation r = Infinity \<longrightarrow>
            coveragePercentage r =
              dmul (ddiv (totalShelterCapacity r) Infinity) (Finite 100)) \<and>
         (totalPopulation r = NegInfinity \<or> totalPopulation r = NotANumber \<longrightarrow>
            coveragePercentage r = Finite 0)"
  using performAnalysis_coverage [OF assms] by (auto simp: coverage_def)

lemma example_analysis_empty_population:
  "performAnalysis example_conv example_distance (Rectangle example_box) [] [Some example_bunker] =
     Inr \<lparr>totalPopulation = Finite 0, areasIntersected = 0, areasProcessed = 0,
          areasWithErrors = 0, totalShelterCapacity = Finite 40, bunkersInside = 1,
          coveragePercentage = Finite 0\<rparr>"
  by (simp add: analysis_defs example_defs round64_Ints)

lemma example_analysis_negative_population:
  "performAnalysis example_conv example_distance (Rectangle example_box)
     [Some negative_area] [Some example_bunker] =
     Inr \<lparr>totalPopulation = Finite (- 5), areasIntersected = 1, areasProcessed = 1,
          areasWithErrors = 0, totalShelterCapacity = Finite 40, bunkersInside = 1,
          coveragePercentage = Finite 0\<rparr>"
  by (simp add: analysis_defs example_defs round64_Ints)

theorem coverage_of_analysis_witness:
  "performAnalysis example_conv example_distance (Rectangle example_box)
     [Some example_area] [Some example_bunker] =
     Inr \<lparr>totalPopulation = Finite 10, areasIntersected = 1, areasProcessed = 1,
          areasWithErrors = 0, totalShelterCapacity = Finite 40, bunkersInside = 1,
          coveragePercentage = Finite 400\<rparr> \<and>
   (0::real) < 10 \<and> round64 (40 / 10) = Finite 4 \<and> round64 (4 * 100) = Finite 400 \<and>
   performAnalysis example_conv example_distance (Rectangle example_box) [] [Some example_bunker] =
     Inr \<lparr>totalPopulation = Finite 0, areasIntersected = 0, areasProcessed = 0,
          areasWithErrors = 0, totalShelterCapacity = Finite 40, bunkersInside = 1,
          coveragePercentage = Finite 0\<rparr> \<and>
   performAnalysis example_conv example_distance (Rectangle example_box)
     [Some negative_area] [Some example_bunker] =
     Inr \<lparr>totalPopulation = Finite (- 5), areasIntersected = 1, areasProcessed = 1,
          areasWithErrors = 0, totalShelterCapacity = Finite 40, bunkersInside = 1,
          coveragePercentage = Finite 0\<rparr> \<and>
   (- 5::real) \<le> 0"
  using coverage_of_analysis [OF example_analysis_covered]
    coverage_of_analysis [OF example_analysis_empty_population]
    coverage_of_analysis [OF example_analysis_negative_population]
    example_analysis_covered example_analysis_empty_population
    example_analysis_negative_population
  by (simp add: round64_Ints)

text \<open>
  The claim as the specification words it (the quotient whenever the total population
  is not 0) fails on a negative total: with a population of -5 and a capacity of 40 in
  the shape the coverage is 0, and the quotient times 100 is -800.
\<close>

theorem coverage_negative_population_counterexample:
  "performAnalysis example_conv example_distance (Rectangle example_box)
     [Some negative_area] [Some example_bunker] =
     Inr \<lparr>totalPopulation = Finite (- 5), areasIntersected = 1, areasProcessed = 1,
          areasWithErrors = 0, totalShelterCapacity = Finite 40, bunkersInside = 1,
          coveragePercentage = Finite 0\<rparr> \<and>
   Finite (- 5) \<noteq> Finite 0 \<and>
   dmul (ddiv (Finite 40) (Finite (- 5))) (Finite 100) = Finite (- 800) \<and>
   Finite (- 800) \<noteq> Finite 0"
  by (simp add: analysis_defs example_defs round64_Ints)

subsection \<open>What the passes compute\<close>

lemma area_data_pos:
  "area_data a = Some (cs, p) \<Longrightarrow> poptot a = Num p \<and> p \<noteq> 0"
  by (auto simp: area_data_def split: option.splits jsnum.splits if_splits)

lemma bunker_data_pos:
  "bunker_data b = Some (c, p) \<Longrightarrow> plasser b = Num p \<and> p \<noteq> 0"
  by (auto simp: bunker_data_def split: option.splits jsnum.splits if_splits)

lemma population_callback_row:
  "population_callback conv d shape (Some a) st =
     Inr (st\<lparr>areasProcessed := areasProcessed st + 1,
            areasIntersected :=
              areasIntersected st + (if area_counted conv d shape (Some a) then 1 else 0),
            areasWithErrors :=
              areasWithErrors st + (if area_failed conv d shape (Some a) then 1 else 0),
            totalPopulation :=
              (if area_counted conv d shape (Some a)
               then dadd (totalPopulation st) (Finite (population_of (Some a)))
               else totalPopulation st)\<rparr>)"
proof (cases "area_data a")
  case None
  then show ?thesis
    by (simp add: population_callback_def area_counted_def area_failed_def)
next
  case (Some csp)
  obtain cs p where csp: "csp = (cs, p)" by (cases csp)
  have p: "population_of (Some a) = p"
    using area_data_pos [of a cs p] Some csp by (simp add: population_of_def)
  show ?thesis
  proof (cases "area_try conv d shape cs")
    case (Inl e)
    with Some csp show ?thesis
      by (simp add: population_callback_def area_counted_def area_failed_def)
  next
    case (Inr res)
    show ?thesis
    proof (cases res)
      case None
      with Inr Some csp show ?thesis
        by (simp add: population_callback_def area_counted_def area_failed_def)
    next
      case (Some b)
      with Inr \<open>area_data a = Some csp\<close> csp p show ?thesis
        by (cases b) (simp_all add: population_callback_def area_counted_def area_failed_def)
    qed
  qed
qed

lemma bunker_callback_row:
  "bunker_callback conv d shape (Some b) st =
     Inr (st\<lparr>bunkersInside :=
              bunkersInside st + (if bunker_counted conv d shape (Some b) then 1 else 0),
            totalShelterCapacity :=
              (if bunker_counted conv d shape (Some b)
               then dadd (totalShelterCapacity st) (Finite (capacity_of (Some b)))
               else totalShelterCapacity st)\<rparr>)"
proof (cases "bunker_data b")
  case None
  then show ?thesis
    by (simp add: bunker_callback_def bunker_counted_def)
next
  case (Some cp)
  obtain c p where cp: "cp = (c, p)" by (cases cp)
  have p: "capacity_of (Some b) = p"
    using bunker_data_pos [of b c p] Some cp by (simp add: capacity_of_def)
  show ?thesis
  proof (cases "bunker_try conv d shape c")
    case (Inl e)
    with Some cp show ?thesis
      by (simp add: bunker_callback_def bunker_counted_def)
  next
    case (Inr inside)
    with Some cp p show ?thesis
      by (cases inside) (simp_all add: bunker_callback_def bunker_counted_def)
  qed
qed

lemma running_sum_Nil: "running_sum t [] = t"
  by (simp add: running_sum_def)

lemma running_sum_Cons: "running_sum t (v # vs) = running_sum (dadd t (Finite v)) vs"
  by (simp add: running_sum_def)

lemma population_pass:
  assumes "\<forall>row\<in>set xs. row \<noteq> None"
  shows "forEach (population_callback conv d shape) xs st =
     Inr (st\<lparr>areasProcessed := areasProcessed st + length xs,
            areasIntersected :=
              areasIntersected st + length (filter (area_counted conv d shape) xs),
            areasWithErrors :=
              areasWithErrors st + length (filter (area_failed conv d shape) xs),
            totalPopulation :=
              running_sum (totalPopulation st)
                (map population_of (filter (area_counted conv d shape) xs))\<rparr>)"
  using assms
proof (induction xs arbitrary: st)
  case Nil
  show ?case by (simp add: running_sum_Nil)
next
  case (Cons row xs)
  from Cons.prems obtain a where row: "row = Some a" by auto
  from Cons.prems have rest: "\<forall>row\<in>set xs. row \<noteq> None" by simp
  show ?case
    unfolding row
    by (simp add: population_callback_row Cons.IH [OF rest] running_sum_Cons)
qed

lemma bunker_pass:
  assumes "\<forall>row\<in>set xs. row \<noteq> None"
  shows "forEach (bunker_callback conv d shape) xs st =
     Inr (st\<lparr>bunkersInside :=
              bunkersInside st + length (filter (bunker_counted conv d shape) xs),
            totalShelterCapacity :=
              running_sum (totalShelterCapacity st)
                (map capacity_of (filter (bunker_counted conv d shape) xs))\<rparr>)"
  using assms
proof (induction xs arbitrary: st)
  case Nil
  show ?case by (simp add: running_sum_Nil)
next
  case (Cons row xs)
  from Cons.prems obtain b where row: "row = Some b" by auto
  from Cons.prems have rest: "\<forall>row\<in>set xs. row \<noteq> None" by simp
  show ?case
    unfolding row
    by (simp add: bunker_callback_row Cons.IH [OF rest] running_sum_Cons)
qed

lemma population_pass_null:
  "None \<in> set xs \<Longrightarrow> forEach (population_callback conv d shape) xs st = Inl TypeError"
proof (induction xs arbitrary: st)
  case Nil
  then show ?case by simp
next
  case (Cons row xs)
  show ?case
  proof (cases row)
    case None
    then show ?thesis by (simp add: population_callback_def)
  next
    case (Some a)
    with Cons.prems have "None \<in> set xs" by simp
    with Some show ?thesis by (simp add: population_callback_row Cons.IH)
  qed
qed

lemma bunker_pass_null:
  "None \<in> set xs \<Longrightarrow> forEach (bunker_callback conv d shape) xs st = Inl TypeError"
proof (induction xs arbitrary: st)
  case Nil
  then show ?case by simp
next
  case (Cons row xs)
  show ?case
  proof (cases row)
    case None
    then show ?thesis by (simp add: bunker_callback_def)
  next
    case (Some b)
    with Cons.prems have "None \<in> set xs" by simp
    with Some show ?thesis by (simp add: bunker_callback_row Cons.IH)
  qed
qed

lemma forEach_guard: "(if xs = [] then Inr st else forEach f xs st) = forEach f xs st"
  by simp

lemma performAnalysis_objects:
  assumes "\<forall>row\<in>set populationData. row \<noteq> None" and "\<forall>row\<in>set bunkerData. row \<noteq> None"
  shows "performAnalysis conv d shape populationData bunkerData =
     Inr \<lparr>totalPopulation =
            running_sum (Finite 0)
              (map population_of (filter (area_counted conv d shape) populationData)),
          areasIntersected = length (filter (area_counted conv d shape) populationData),
          areasProcessed = length populationData,
          areasWithErrors = length (filter (area_failed conv d shape) populationData),
          totalShelterCapacity =
            running_sum (Finite 0)
              (map capacity_of (filter (bunker_counted conv d shape) bunkerData)),
          bunkersInside = length (filter (bunker_counted conv d shape) bunkerData),
          coveragePercentage =
            coverage
              (running_sum (Finite 0)
                 (map capacity_of (filter (bunker_counted conv d shape) bunkerData)))
              (running_sum (Finite 0)
                 (map population_of (filter (area_counted conv d shape) populationData)))\<rparr>"
  unfolding performAnalysis_def forEach_guard
  by (simp add: population_pass [OF assms(1)] bunker_pass [OF assms(2)] init_vars_def)

lemma performAnalysis_null:
  assumes "None \<in> set populationData \<or> None \<in> set bunkerData"
  shows "performAnalysis conv d shape populationData bunkerData = Inl TypeError"
proof (cases "None \<in> set populationData")
  case True
  then show ?thesis
    unfolding performAnalysis_def forEach_guard by (simp add: population_pass_null)
next
  case False
  with assms have b: "None \<in> set bunkerData" by simp
  from False have "\<forall>row\<in>set populationData. row \<noteq> None" by metis
  then show ?thesis
    unfolding performAnalysis_def forEach_guard
    by (simp add: population_pass bunker_pass_null [OF b])
qed

subsection \<open>Errors and the passes\<close>

lemma convertedCoords_append:
  "convertedCoords conv (xs @ ys) = convertedCoords conv xs @ convertedCoords conv ys"
  by (simp add: convertedCoords_def)

lemma convertedCoords_failed:
  "normalizeCoord conv c = Inl e \<Longrightarrow> convertedCoords conv (c # cs) = convertedCoords conv cs"
  by (simp add: convertedCoords_def convertCoord_def)

text \<open>
  On rows that are objects every exception is caught: a coordinate whose conversion
  throws is dropped from its ring, a population row whose processing throws is counted
  in \<open>areasWithErrors\<close>, a bunker row whose processing throws is left out, each pass goes
  on with the next row, and the analysis returns a result.
\<close>

lemma caught_errors_do_not_stop_a_pass:
  "(normalizeCoord conv c = Inl e \<longrightarrow>
      convertedCoords conv (before @ c # after) = convertedCoords conv (before @ after)) \<and>
   (area_data a = Some (rings, p) \<and> area_try conv d shape rings = Inl e \<longrightarrow>
      forEach (population_callback conv d shape) (Some a # areas) st =
        forEach (population_callback conv d shape) areas
          (st\<lparr>areasProcessed := areasProcessed st + 1,
               areasWithErrors := areasWithErrors st + 1\<rparr>)) \<and>
   (bunker_data b = Some (location, q) \<and> bunker_try conv d shape location = Inl e \<longrightarrow>
      forEach (bunker_callback conv d shape) (Some b # bunkers) st =
        forEach (bunker_callback conv d shape) bunkers st)"
  by (simp add: convertedCoords_append convertedCoords_failed population_callback_def
      bunker_callback_def)

lemma analysis_returns_on_object_rows:
  assumes "\<forall>row\<in>set populationData. row \<noteq> None" and "\<forall>row\<in>set bunkerData. row \<noteq> None"
  shows "\<exists>r. performAnalysis conv d shape populationData bunkerData = Inr r"
  by (simp add: performAnalysis_objects [OF assms])

lemma example_analysis_with_errors:
  "performAnalysis example_conv example_distance (Rectangle example_box)
     [Some broken_area, Some example_area] [Some broken_bunker, Some example_bunker] =
     Inr \<lparr>totalPopulation = Finite 10, areasIntersected = 1, areasProcessed = 2,
          areasWithErrors = 1, totalShelterCapacity = Finite 40, bunkersInside = 1,
          coveragePercentage = Finite 400\<rparr>"
  by (simp add: analysis_defs example_defs round64_Ints)

text \<open>
  Claim C1 says that the analysis returns a result for every dataset and that no error
  of a row leaves its pass or stops the rows after it. The code breaks this on a row
  that is \<open>null\<close> or \<open>undefined\<close>: the presence tests of lines 262 and 344 read the row
  before the \<open>try\<close> block, the \<open>TypeError\<close> leaves \<open>forEach\<close> and \<open>performAnalysis\<close>, and the
  rows after it, which alone give a result, are not processed. (\<open>loadPopulationData\<close> has
  the same test inside its \<open>try\<close>, lines 148-152.)
\<close>

theorem null_row_aborts_analysis:
  "performAnalysis example_conv example_distance (Rectangle example_box)
     [None, Some example_area] [Some example_bunker] = Inl TypeError \<and>
   performAnalysis example_conv example_distance (Rectangle example_box)
     [Some example_area] [None, Some example_bunker] = Inl TypeError \<and>
   performAnalysis example_conv example_distance (Rectangle example_box)
     [Some example_area] [Some example_bunker] =
     Inr \<lparr>totalPopulation = Finite 10, areasIntersected = 1, areasProcessed = 1,
          areasWithErrors = 0, totalShelterCapacity = Finite 40, bunkersInside = 1,
          coveragePercentage = Finite 400\<rparr>"
  by (simp add: performAnalysis_null example_analysis_covered)

subsection \<open>The order of the rows\<close>

lemma running_sum_exact:
  assumes "t \<in> \<int>" and "\<forall>v\<in>set vs. v \<in> \<int>" and "\<bar>t\<bar> + sum_list (map abs vs) \<le> 2 ^ 53"
  shows "running_sum (Finite t) vs = Finite (t + sum_list vs)"
  using assms
proof (induction vs arbitrary: t)
  case Nil
  show ?case by (simp add: running_sum_Nil)
next
  case (Cons v vs)
  have nn: "0 \<le> sum_list (map abs vs)"
    by (rule sum_list_nonneg) auto
  have int: "t + v \<in> \<int>" using Cons.prems(1,2) by simp
  have bound: "\<bar>t + v\<bar> + sum_list (map abs vs) \<le> 2 ^ 53"
    using Cons.prems(3) by simp
  have "\<bar>t + v\<bar> \<le> 2 ^ 53" using bound nn by linarith
  then have step: "round64 (t + v) = Finite (t + v)"
    using int by (simp add: round64_Ints)
  have "running_sum (Finite (t + v)) vs = Finite (t + v + sum_list vs)"
    using Cons.prems(2) by (intro Cons.IH [OF int _ bound]) simp
  then show ?case by (simp add: running_sum_Cons step add.assoc)
qed

lemma sum_list_abs_filter_le:
  fixes f :: "'a \<Rightarrow> real"
  shows "sum_list (map (\<lambda>x. \<bar>f x\<bar>) (filter P xs)) \<le> sum_list (map (\<lambda>x. \<bar>f x\<bar>) xs)"
  by (induction xs) auto

lemma running_sum_of_rows:
  fixes f :: "'a \<Rightarrow> real"
  assumes "\<forall>x\<in>set xs. f x \<in> \<int>" and "sum_list (map (\<lambda>x. \<bar>f x\<bar>) xs) \<le> 2 ^ 53"
  shows "running_sum (Finite 0) (map f (filter P xs)) = Finite (sum_list (map f (filter P xs)))"
proof -
  have "sum_list (map abs (map f (filter P xs))) \<le> 2 ^ 53"
    using sum_list_abs_filter_le [of f P xs] assms(2) by (simp add: comp_def)
  then have "running_sum (Finite 0) (map f (filter P xs)) =
               Finite (0 + sum_list (map f (filter P xs)))"
    using assms(1) by (intro running_sum_exact) auto
  then show ?thesis by simp
qed

lemma permuted_counts:
  assumes "mset xs = mset ys"
  shows "length xs = length ys"
    and "length (filter P xs) = length (filter P ys)"
    and "sum_list (map f (filter P xs)) = (sum_list (map f (filter P ys)) :: real)"
    and "set xs = set ys"
proof -
  show "length xs = length ys" using assms by (rule mset_eq_length)
  have m: "mset (filter P xs) = mset (filter P ys)"
    using assms by simp
  then show "length (filter P xs) = length (filter P ys)" by (rule mset_eq_length)
  have "mset (map f (filter P xs)) = mset (map f (filter P ys))"
    using m by simp
  then have "sum_mset (mset (map f (filter P xs))) = sum_mset (mset (map f (filter P ys)))"
    by simp
  then show "sum_list (map f (filter P xs)) = sum_list (map f (filter P ys))"
    by (simp only: sum_mset_sum_list)
  show "set xs = set ys" using assms by (rule mset_eq_setD)
qed

lemma round64_above_two_to_53:
  "round64 9007199254740993 = Finite 9007199254740992"
  "round64 9007199254740994 = Finite 9007199254740994"
  using round64_tie_down round64_even_above by simp_all

text \<open>
  Claim C9, as the code has it. For datasets that are permutations of the given ones:
  if the analysis throws (a row is \<open>null\<close> or \<open>undefined\<close>), it throws in every order;
  the counts of the result are the same in every order; and when the populations and
  the capacities are integers whose magnitudes add up to at most \<open>2 ^ 53\<close>, every
  addition is exact, the two sums are the exact sums over the counted rows, and the
  whole result is the same in every order. Both sums and all counts are zero for empty
  datasets.
\<close>

theorem analysis_order_independent:
  assumes "mset populationData' = mset populationData"
      and "mset bunkerData' = mset bunkerData"
  shows "(\<forall>e. performAnalysis conv d shape populationData bunkerData = Inl e \<longrightarrow>
            performAnalysis conv d shape populationData' bunkerData' = Inl e) \<and>
         (\<forall>r r'. performAnalysis conv d shape populationData bunkerData = Inr r \<and>
                 performAnalysis conv d shape populationData' bunkerData' = Inr r' \<longrightarrow>
            areasProcessed r' = areasProcessed r \<and>
            areasIntersected r' = areasIntersected r \<and>
            areasWithErrors r' = areasWithErrors r \<and>
            bunkersInside r' = bunkersInside r) \<and>
         ((\<forall>row\<in>set populationData. population_of row \<in> \<int>) \<and>
          sum_list (map (\<lambda>row. \<bar>population_of row\<bar>) populationData) \<le> 2 ^ 53 \<and>
          (\<forall>row\<in>set bunkerData. capacity_of row \<in> \<int>) \<and>
          sum_list (map (\<lambda>row. \<bar>capacity_of row\<bar>) bunkerData) \<le> 2 ^ 53 \<longrightarrow>
            performAnalysis conv d shape populationData' bunkerData' =
              performAnalysis conv d shape populationData bunkerData \<and>
            (\<forall>r. performAnalysis conv d shape populationData bunkerData = Inr r \<longrightarrow>
               totalPopulation r =
                 Finite (sum_list (map population_of
                           (filter (area_counted conv d shape) populationData))) \<and>
               totalShelterCapacity r =
                 Finite (sum_list (map capacity_of
                           (filter (bunker_counted conv d shape) bunkerData))))) \<and>
         performAnalysis conv d shape [] [] =
           Inr \<lparr>totalPopulation = Finite 0, areasIntersected = 0, areasProcessed = 0,
                areasWithErrors = 0, totalShelterCapacity = Finite 0, bunkersInside = 0,
                coveragePercentage = Finite 0\<rparr>"
proof -
  note pp = permuted_counts [OF assms(1)]
  note pb = permuted_counts [OF assms(2)]
  have empty: "performAnalysis conv d shape [] [] =
           Inr \<lparr>totalPopulation = Finite 0, areasIntersected = 0, areasProcessed = 0,
                areasWithErrors = 0, totalShelterCapacity = Finite 0, bunkersInside = 0,
                coveragePercentage = Finite 0\<rparr>"
    by (simp add: performAnalysis_def init_vars_def coverage_def)
  show ?thesis
  proof (cases "None \<in> set populationData \<or> None \<in> set bunkerData")
    case True
    then have "None \<in> set populationData' \<or> None \<in> set bunkerData'"
      using pp(4) pb(4) by simp
    then have "performAnalysis conv d shape populationData' bunkerData' = Inl TypeError"
      by (rule performAnalysis_null)
    moreover have "performAnalysis conv d shape populationData bunkerData = Inl TypeError"
      using True by (rule performAnalysis_null)
    ultimately show ?thesis using empty by simp
  next
    case False
    then have o: "\<forall>row\<in>set populationData. row \<noteq> None" "\<forall>row\<in>set bunkerData. row \<noteq> None"
      by metis+
    then have o': "\<forall>row\<in>set populationData'. row \<noteq> None" "\<forall>row\<in>set bunkerData'. row \<noteq> None"
      using pp(4) pb(4) by simp_all
    note r = performAnalysis_objects [OF o, of conv d shape]
    note r' = performAnalysis_objects [OF o', of conv d shape]
    have thrown: "\<forall>e. performAnalysis conv d shape populationData bunkerData = Inl e \<longrightarrow>
            performAnalysis conv d shape populationData' bunkerData' = Inl e"
      by (simp add: r)
    have counts: "\<forall>r r'. performAnalysis conv d shape populationData bunkerData = Inr r \<and>
                 performAnalysis conv d shape populationData' bunkerData' = Inr r' \<longrightarrow>
            areasProcessed r' = areasProcessed r \<and>
            areasIntersected r' = areasIntersected r \<and>
            areasWithErrors r' = areasWithErrors r \<and>
            bunkersInside r' = bunkersInside r"
      unfolding r r' using pp(1,2) pb(2) by auto
    have sums: "performAnalysis conv d shape populationData' bunkerData' =
              performAnalysis conv d shape populationData bunkerData \<and>
            (\<forall>r. performAnalysis conv d shape populationData bunkerData = Inr r \<longrightarrow>
               totalPopulation r =
                 Finite (sum_list (map population_of
                           (filter (area_counted conv d shape) populationData))) \<and>
               totalShelterCapacity r =
                 Finite (sum_list (map capacity_of
                           (filter (bunker_counted conv d shape) bunkerData))))"
      if ip: "\<forall>row\<in>set populationData. population_of row \<in> \<int>"
        and bp: "sum_list (map (\<lambda>row. \<bar>population_of row\<bar>) populationData) \<le> 2 ^ 53"
        and ib: "\<forall>row\<in>set bunkerData. capacity_of row \<in> \<int>"
        and bb: "sum_list (map (\<lambda>row. \<bar>capacity_of row\<bar>) bunkerData) \<le> 2 ^ 53"
    proof -
      have ip': "\<forall>row\<in>set populationData'. population_of row \<in> \<int>"
        using ip pp(4) by simp
      have ib': "\<forall>row\<in>set bunkerData'. capacity_of row \<in> \<int>"
        using ib pb(4) by simp
      have "sum_list (map (\<lambda>row. \<bar>population_of row\<bar>) (filter (\<lambda>_. True) populationData')) =
            sum_list (map (\<lambda>row. \<bar>population_of row\<bar>) (filter (\<lambda>_. True) populationData))"
        by (rule pp(3))
      then have bp': "sum_list (map (\<lambda>row. \<bar>population_of row\<bar>) populationData') \<le> 2 ^ 53"
        using bp by simp
      have "sum_list (map (\<lambda>row. \<bar>capacity_of row\<bar>) (filter (\<lambda>_. True) bunkerData')) =
            sum_list (map (\<lambda>row. \<bar>capacity_of row\<bar>) (filter (\<lambda>_. True) bunkerData))"
        by (rule pb(3))
      then have bb': "sum_list (map (\<lambda>row. \<bar>capacity_of row\<bar>) bunkerData') \<le> 2 ^ 53"
        using bb by simp
      note s = running_sum_of_rows [OF ip bp, of "area_counted conv d shape"]
        running_sum_of_rows [OF ib bb, of "bunker_counted conv d shape"]
      note s' = running_sum_of_rows [OF ip' bp', of "area_counted conv d shape"]
        running_sum_of_rows [OF ib' bb', of "bunker_counted conv d shape"]
      have tp: "sum_list (map population_of (filter (area_counted conv d shape) populationData')) =
                sum_list (map population_of (filter (area_counted conv d shape) populationData))"
        by (rule pp(3))
      have tb: "sum_list (map capacity_of (filter (bunker_counted conv d shape) bunkerData')) =
                sum_list (map capacity_of (filter (bunker_counted conv d shape) bunkerData))"
        by (rule pb(3))
      show ?thesis
        unfolding r r' s s' tp tb using pp(1,2) pb(2) by auto
    qed
    from thrown counts sums empty show ?thesis by blast
  qed
qed

lemma example_analysis_two_rows:
  "performAnalysis example_conv example_distance (Rectangle example_box)
     [Some example_area, Some second_area] [Some example_bunker, Some near_bunker] =
     Inr \<lparr>totalPopulation = Finite 55, areasIntersected = 2, areasProcessed = 2,
          areasWithErrors = 0, totalShelterCapacity = Finite 55, bunkersInside = 2,
          coveragePercentage = Finite 100\<rparr>"
  by (simp add: analysis_defs example_defs round64_Ints)

theorem analysis_order_independent_witness:
  "mset [Some second_area, Some example_area] = mset [Some example_area, Some second_area] \<and>
   mset [Some near_bunker, Some example_bunker] = mset [Some example_bunker, Some near_bunker] \<and>
   population_of (Some example_area) = 10 \<and> population_of (Some second_area) = 45 \<and>
   capacity_of (Some example_bunker) = 40 \<and> capacity_of (Some near_bunker) = 15 \<and>
   (10::real) \<in> \<int> \<and> (45::real) \<in> \<int> \<and> (40::real) \<in> \<int> \<and> (15::real) \<in> \<int> \<and>
   \<bar>10::real\<bar> + \<bar>45\<bar> \<le> 2 ^ 53 \<and> \<bar>40::real\<bar> + \<bar>15\<bar> \<le> 2 ^ 53 \<and>
   performAnalysis example_conv example_distance (Rectangle example_box)
     [Some second_area, Some example_area] [Some near_bunker, Some example_bunker] =
     Inr \<lparr>totalPopulation = Finite 55, areasIntersected = 2, areasProcessed = 2,
          areasWithErrors = 0, totalShelterCapacity = Finite 55, bunkersInside = 2,
          coveragePercentage = Finite 100\<rparr> \<and>
   performAnalysis example_conv example_distance (Rectangle example_box)
     [Some example_area, Some second_area] [Some example_bunker, Some near_bunker] =
     Inr \<lparr>totalPopulation = Finite 55, areasIntersected = 2, areasProcessed = 2,
          areasWithErrors = 0, totalShelterCapacity = Finite 55, bunkersInside = 2,
          coveragePercentage = Finite 100\<rparr>"
proof -
  have h1: "mset [Some second_area, Some example_area] =
            mset [Some example_area, Some second_area]"
    by (simp add: add.commute)
  have h2: "mset [Some near_bunker, Some example_bunker] =
            mset [Some example_bunker, Some near_bunker]"
    by (simp add: add.commute)
  have p: "population_of (Some example_area) = 10" "population_of (Some second_area) = 45"
    by (simp_all add: population_of_def example_area_def second_area_def)
  have c: "capacity_of (Some example_bunker) = 40" "capacity_of (Some near_bunker) = 15"
    by (simp_all add: capacity_of_def example_bunker_def near_bunker_def)
  show ?thesis
    using h1 h2 p c example_analysis_two_rows
      analysis_order_independent [OF h1 h2, of example_conv example_distance
        "Rectangle example_box"]
    by simp
qed

text \<open>
  The claim as the specification words it (the sums are the same in every order, for
  every dataset) fails on three population rows in the shape with the populations
  \<open>2 ^ 53\<close>, 1 and 1: adding the two ones first gives \<open>2 ^ 53 + 2\<close>, adding them last
  gives \<open>2 ^ 53\<close>, since \<open>2 ^ 53 + 1\<close> is no double and is rounded to \<open>2 ^ 53\<close>.
\<close>

theorem sums_depend_on_order_counterexample:
  "mset [Some unit_area, Some unit_area, Some big_area] =
     mset [Some big_area, Some unit_area, Some unit_area] \<and>
   performAnalysis example_conv example_distance (Rectangle example_box)
     [Some big_area, Some unit_area, Some unit_area] [] =
     Inr \<lparr>totalPopulation = Finite 9007199254740992, areasIntersected = 3,
          areasProcessed = 3, areasWithErrors = 0, totalShelterCapacity = Finite 0,
          bunkersInside = 0, coveragePercentage = Finite 0\<rparr> \<and>
   performAnalysis example_conv example_distance (Rectangle example_box)
     [Some unit_area, Some unit_area, Some big_area] [] =
     Inr \<lparr>totalPopulation = Finite 9007199254740994, areasIntersected = 3,
          areasProcessed = 3, areasWithErrors = 0, totalShelterCapacity = Finite 0,
          bunkersInside = 0, coveragePercentage = Finite 0\<rparr> \<and>
   Finite 9007199254740992 \<noteq> Finite 9007199254740994"
  by (simp add: analysis_defs example_defs round64_Ints round64_above_two_to_53)

end
